theory Spec2Isabelle
  imports Main "HOL-Library.AList"
begin


section \<open>Kubernetes and CDI API types used by the verified code\<close>

text \<open>
  The Go string enumerations of \<^verbatim>\<open>k8s.io/api/core/v1\<close> and of the CDI API are datatypes;
  a Go pointer that may be nil is an \<open>option\<close>; a Go \<^verbatim>\<open>map[string]string\<close> is a map
  \<open>string \<rightharpoonup> string\<close>. Reading a missing key of a Go map yields the zero value, which
  \<open>lookup0\<close> writes out for string values.
\<close>

datatype PersistentVolumeAccessMode = ReadWriteOnce | ReadOnlyMany | ReadWriteMany | ReadWriteOncePod

datatype PersistentVolumeMode = PersistentVolumeBlock | PersistentVolumeFilesystem

datatype PersistentVolumePhase = VolumePending | VolumeAvailable | VolumeBound | VolumeReleased | VolumeFailed

datatype CDICloneStrategy = CloneStrategyHostAssisted | CloneStrategySnapshot | CloneStrategyCsiClone

datatype error =
    NotFound
  | AlreadyExists
  | ApiError string
  | Errorf string
  | Wrapped string error
  | Panic string

definition lookup0 :: "(string \<rightharpoonup> string) \<Rightarrow> string \<Rightarrow> string" where
  "lookup0 m k = (case m k of None \<Rightarrow> [] | Some v \<Rightarrow> v)"

record StorageClass =
  Name :: string
  Provisioner :: string
  Parameters :: "string \<rightharpoonup> string"
  Labels :: "string \<rightharpoonup> string"
  Annotations :: "string \<rightharpoonup> string"
  DeletionTimestamp :: "nat option"

record PersistentVolume =
  pvName :: string
  pvStorageClassName :: string
  pvAccessModes :: "PersistentVolumeAccessMode list"
  pvVolumeMode :: "PersistentVolumeMode option"
  pvPhase :: PersistentVolumePhase

section \<open>Iterating over a Go map\<close>

text \<open>
  A Go map that the code ranges over is an association list with one entry per key
  (\<open>AList.update\<close> inserts, \<open>AList.delete\<close> removes every entry of the key). The language
  leaves the order of \<^verbatim>\<open>range\<close> over a map unspecified, so each such loop takes a
  \<open>rank\<close> of the keys and visits the entries by increasing rank: every ordering of the
  entries arises from some rank, and every rank yields a permutation of the entries.
\<close>

definition range_order :: "('k \<Rightarrow> nat) \<Rightarrow> ('k \<times> 'v) list \<Rightarrow> ('k \<times> 'v) list" where
  "range_order rank m = sort_key (\<lambda>kv. rank (fst kv)) m"

section \<open>pkg/util: ResolveVolumeMode\<close>

definition ResolveVolumeMode :: "PersistentVolumeMode option \<Rightarrow> PersistentVolumeMode" where
  "ResolveVolumeMode volumeMode =
     (if volumeMode \<noteq> None \<and> the volumeMode = PersistentVolumeBlock
      then PersistentVolumeBlock else PersistentVolumeFilesystem)"

section \<open>pkg/storagecapabilities\<close>

record StorageCapabilities =
  AccessMode :: PersistentVolumeAccessMode
  VolumeMode :: PersistentVolumeMode

definition createRbdCapabilities :: "StorageCapabilities list" where
  "createRbdCapabilities =
     [\<lparr>AccessMode = ReadWriteMany, VolumeMode = PersistentVolumeBlock\<rparr>,
      \<lparr>AccessMode = ReadWriteOnce, VolumeMode = PersistentVolumeBlock\<rparr>,
      \<lparr>AccessMode = ReadWriteOnce, VolumeMode = PersistentVolumeFilesystem\<rparr>]"

definition CapabilitiesByProvisionerKey :: "string \<rightharpoonup> StorageCapabilities list" where
  "CapabilitiesByProvisionerKey = map_of
     [(''kubevirt.io.hostpath-provisioner'', [\<lparr>AccessMode = ReadWriteOnce, VolumeMode = PersistentVolumeFilesystem\<rparr>]),
      (''kubevirt.io/hostpath-provisioner'', [\<lparr>AccessMode = ReadWriteOnce, VolumeMode = PersistentVolumeFilesystem\<rparr>]),
      (''nfs.csi.k8s.io'', [\<lparr>AccessMode = ReadWriteMany, VolumeMode = PersistentVolumeFilesystem\<rparr>]),
      (''kubernetes.io/rbd'', createRbdCapabilities),
      (''rbd.csi.ceph.com'', createRbdCapabilities),
      (''rook-ceph.rbd.csi.ceph.com'', createRbdCapabilities),
      (''openshift-storage.rbd.csi.ceph.com'', createRbdCapabilities),
      (''cephfs.csi.ceph.com'', [\<lparr>AccessMode = ReadWriteMany, VolumeMode = PersistentVolumeFilesystem\<rparr>]),
      (''openshift-storage.cephfs.csi.ceph.com'', [\<lparr>AccessMode = ReadWriteMany, VolumeMode = PersistentVolumeFilesystem\<rparr>]),
      (''kubernetes.io/storageos'', [\<lparr>AccessMode = ReadWriteOnce, VolumeMode = PersistentVolumeFilesystem\<rparr>]),
      (''storageos'', [\<lparr>AccessMode = ReadWriteOnce, VolumeMode = PersistentVolumeFilesystem\<rparr>]),
      (''kubernetes.io/aws-ebs'', [\<lparr>AccessMode = ReadWriteOnce, VolumeMode = PersistentVolumeBlock\<rparr>]),
      (''ebs.csi.aws.com'', [\<lparr>AccessMode = ReadWriteOnce, VolumeMode = PersistentVolumeBlock\<rparr>]),
      (''kubernetes.io/azure-disk'', [\<lparr>AccessMode = ReadWriteOnce, VolumeMode = PersistentVolumeBlock\<rparr>]),
      (''disk.csi.azure.com'', [\<lparr>AccessMode = ReadWriteOnce, VolumeMode = PersistentVolumeBlock\<rparr>]),
      (''kubernetes.io/azure-file'', [\<lparr>AccessMode = ReadWriteMany, VolumeMode = PersistentVolumeFilesystem\<rparr>]),
      (''file.csi.azure.com'', [\<lparr>AccessMode = ReadWriteMany, VolumeMode = PersistentVolumeFilesystem\<rparr>]),
      (''kubernetes.io/gce-pd'', [\<lparr>AccessMode = ReadWriteOnce, VolumeMode = PersistentVolumeBlock\<rparr>]),
      (''pd.csi.storage.gke.io'', [\<lparr>AccessMode = ReadWriteOnce, VolumeMode = PersistentVolumeBlock\<rparr>]),
      (''kubernetes.io/portworx-volume/shared'', [\<lparr>AccessMode = ReadWriteMany, VolumeMode = PersistentVolumeFilesystem\<rparr>]),
      (''pxd.openstorage.org/shared'', [\<lparr>AccessMode = ReadWriteMany, VolumeMode = PersistentVolumeFilesystem\<rparr>]),
      (''kubernetes.io/portworx-volume'', [\<lparr>AccessMode = ReadWriteOnce, VolumeMode = PersistentVolumeFilesystem\<rparr>]),
      (''pxd.openstorage.org'', [\<lparr>AccessMode = ReadWriteOnce, VolumeMode = PersistentVolumeFilesystem\<rparr>]),
      (''csi.trident.netapp.io/ontap-nas'', [\<lparr>AccessMode = ReadWriteMany, VolumeMode = PersistentVolumeFilesystem\<rparr>]),
      (''csi.trident.netapp.io/ontap-san'', [\<lparr>AccessMode = ReadWriteOnce, VolumeMode = PersistentVolumeBlock\<rparr>])]"

definition storageClassToProvisionerKeyMapper :: "string \<rightharpoonup> (StorageClass \<Rightarrow> string)" where
  "storageClassToProvisionerKeyMapper = map_of
     [(''pxd.openstorage.org'',
         (\<lambda>sc. let val = lookup0 (Parameters sc) ''shared''
               in if val = ''true'' then ''pxd.openstorage.org/shared'' else ''pxd.openstorage.org'')),
      (''kubernetes.io/portworx-volume'',
         (\<lambda>sc. let val = lookup0 (Parameters sc) ''shared''
               in if val = ''true'' then ''kubernetes.io/portworx-volume/shared''
                  else ''kubernetes.io/portworx-volume'')),
      (''csi.trident.netapp.io'',
         (\<lambda>sc. let val = lookup0 (Parameters sc) ''backendType''
               in if val = ''ontap-nas'' then ''csi.trident.netapp.io/ontap-nas''
                  else if val = ''ontap-san'' then ''csi.trident.netapp.io/ontap-san''
                  else ''UNKNOWN''))]"

definition storageProvisionerKey :: "StorageClass \<Rightarrow> string" where
  "storageProvisionerKey sc =
     (case storageClassToProvisionerKeyMapper (Provisioner sc) of
        Some keyMapper \<Rightarrow> keyMapper sc
      | None \<Rightarrow> Provisioner sc)"

definition isLocalStorageOperator :: "StorageClass \<Rightarrow> bool" where
  "isLocalStorageOperator sc = (Labels sc ''local.storage.openshift.io/owner-name'' \<noteq> None)"

definition knownNoProvisioner :: "StorageClass \<Rightarrow> bool" where
  "knownNoProvisioner sc = (if isLocalStorageOperator sc then True else False)"

definition uniqueCapabilities ::
  "(StorageCapabilities \<Rightarrow> nat) \<Rightarrow> StorageCapabilities list \<Rightarrow> StorageCapabilities list" where
  "uniqueCapabilities rank input =
     (let capabilitiesMap = fold (\<lambda>capability m. AList.update capability True m) input []
      in map fst (range_order rank capabilitiesMap))"

text \<open>The inner loop of \<^verbatim>\<open>capabilitiesForNoProvisioner\<close>: one capability per access mode of a volume.\<close>

definition pvCapabilities :: "PersistentVolume \<Rightarrow> StorageCapabilities list" where
  "pvCapabilities pv =
     map (\<lambda>accessMode. \<lparr>AccessMode = accessMode, VolumeMode = ResolveVolumeMode (pvVolumeMode pv)\<rparr>)
         (pvAccessModes pv)"

text \<open>
  \<open>listPVs\<close> is the outcome of \<^verbatim>\<open>cl.List(context.TODO(), pvs)\<close>: the client's error, or the
  items of the list.
\<close>

definition capabilitiesForNoProvisioner ::
  "(StorageCapabilities \<Rightarrow> nat) \<Rightarrow> (error + PersistentVolume list) \<Rightarrow> StorageClass
     \<Rightarrow> StorageCapabilities list \<times> bool" where
  "capabilitiesForNoProvisioner rank listPVs sc =
     (if \<not> knownNoProvisioner sc then ([], False)
      else case listPVs of
             Inl err \<Rightarrow> ([], False)
           | Inr items \<Rightarrow>
               (let capabilities =
                      concat (map (\<lambda>pv. if pvStorageClassName pv = Name sc then pvCapabilities pv else [])
                                  items);
                    capabilities = uniqueCapabilities rank capabilities
                in (capabilities, length capabilities > 0)))"

definition Get ::
  "(StorageCapabilities \<Rightarrow> nat) \<Rightarrow> (error + PersistentVolume list) \<Rightarrow> StorageClass
     \<Rightarrow> StorageCapabilities list \<times> bool" where
  "Get rank listPVs sc =
     (let provisionerKey = storageProvisionerKey sc
      in if provisionerKey = ''kubernetes.io/no-provisioner''
         then capabilitiesForNoProvisioner rank listPVs sc
         else case CapabilitiesByProvisionerKey provisionerKey of
                Some capabilities \<Rightarrow> (capabilities, True)
              | None \<Rightarrow> ([], False))"

section \<open>Reference definitions and concrete inputs for the capability lookup\<close>

text \<open>
  The capabilities of the listed volumes of one class, written with \<open>filter\<close>: of every
  listed volume (\<open>capabilitiesOfClass\<close>), and of the volumes in phase Bound only
  (\<open>boundCapabilitiesOfClass\<close>), which is the reading of the specification's words
  "bound PVs of that class".
\<close>

definition capabilitiesOfClass :: "PersistentVolume list \<Rightarrow> string \<Rightarrow> StorageCapabilities list" where
  "capabilitiesOfClass items name =
     concat (map pvCapabilities (filter (\<lambda>pv. pvStorageClassName pv = name) items))"

definition boundCapabilitiesOfClass :: "PersistentVolume list \<Rightarrow> string \<Rightarrow> StorageCapabilities list" where
  "boundCapabilitiesOfClass items name =
     concat (map pvCapabilities
       (filter (\<lambda>pv. pvPhase pv = VolumeBound \<and> pvStorageClassName pv = name) items))"

text \<open>A rank that leaves a map's entries in insertion order, and some cluster objects.\<close>

definition byInsertion :: "StorageCapabilities \<Rightarrow> nat" where
  "byInsertion capability = 0"

definition sc_manual :: StorageClass where
  "sc_manual = \<lparr>Name = ''manual'', Provisioner = ''kubernetes.io/no-provisioner'',
     Parameters = Map.empty, Labels = Map.empty, Annotations = Map.empty, DeletionTimestamp = None\<rparr>"

definition sc_local :: StorageClass where
  "sc_local = \<lparr>Name = ''local'', Provisioner = ''kubernetes.io/no-provisioner'',
     Parameters = Map.empty, Labels = [''local.storage.openshift.io/owner-name'' \<mapsto> ''lso''],
     Annotations = Map.empty, DeletionTimestamp = None\<rparr>"

definition pv_manual_bound :: PersistentVolume where
  "pv_manual_bound = \<lparr>pvName = ''pv-a'', pvStorageClassName = ''manual'',
     pvAccessModes = [ReadWriteOnce], pvVolumeMode = None, pvPhase = VolumeBound\<rparr>"

definition pv_local_available :: PersistentVolume where
  "pv_local_available = \<lparr>pvName = ''pv-b'', pvStorageClassName = ''local'',
     pvAccessModes = [ReadWriteOnce], pvVolumeMode = Some PersistentVolumeBlock, pvPhase = VolumeAvailable\<rparr>"

definition pv_local_bound :: PersistentVolume where
  "pv_local_bound = \<lparr>pvName = ''pv-c'', pvStorageClassName = ''local'',
     pvAccessModes = [ReadWriteOnce, ReadWriteMany], pvVolumeMode = Some PersistentVolumeBlock, pvPhase = VolumeBound\<rparr>"

definition sc_portworx_shared :: StorageClass where
  "sc_portworx_shared = \<lparr>Name = ''px-shared'', Provisioner = ''pxd.openstorage.org'',
     Parameters = [''shared'' \<mapsto> ''true''], Labels = Map.empty, Annotations = Map.empty,
     DeletionTimestamp = None\<rparr>"

section \<open>pkg/controller: the StorageProfile reconciler\<close>

record ClaimPropertySet =
  AccessModes :: "PersistentVolumeAccessMode list"
  cpsVolumeMode :: "PersistentVolumeMode option"

record StorageProfileSpec =
  specCloneStrategy :: "CDICloneStrategy option"
  specClaimPropertySets :: "ClaimPropertySet list"

record StorageProfileStatus =
  statusStorageClass :: "string option"
  statusProvisioner :: "string option"
  statusCloneStrategy :: "CDICloneStrategy option"
  statusClaimPropertySets :: "ClaimPropertySet list"

record StorageProfile =
  profileName :: string
  profileLabels :: "string \<rightharpoonup> string"
  profileOwnerReferences :: "string list"
  Spec :: StorageProfileSpec
  Status :: StorageProfileStatus

text \<open>
  The constants of \<^verbatim>\<open>pkg/common\<close> that the reconciler uses are parameters, as is the
  outcome of \<^verbatim>\<open>operator.SetOwnerRuntime\<close> (the owner reference it finds, or its error).
\<close>

record common =
  AppKubernetesManagedByLabel :: string
  AppKubernetesComponentLabel :: string
  CDILabelKey :: string
  CDILabelValue :: string
  CDIComponentLabel :: string

record StorageProfileReconciler =
  commonConsts :: common
  installerLabels :: "string \<rightharpoonup> string"
  SetOwnerRuntime :: "error + string"
  capabilityRank :: "StorageCapabilities \<Rightarrow> nat"

text \<open>
  The cluster behind \<^verbatim>\<open>r.client\<close>, as explicit state: the stored objects, the write
  requests issued so far (whether or not they succeeded), and the process-wide gauge. Any
  call of the client may fail: \<open>failing\<close> gives the error of an operation that fails.
  Reading does not change the cluster. \<^verbatim>\<open>float64(numIncomplete)\<close> is exact for a count of
  list items, so the gauge holds the count itself.
\<close>

datatype clientOp =
    GetStorageClass | GetStorageProfile | CreateStorageProfile | UpdateStorageProfile
  | DeleteStorageProfile | ListStorageProfiles | ListPersistentVolumes

record cluster =
  storageClasses :: "StorageClass list"
  storageProfiles :: "StorageProfile list"
  persistentVolumes :: "PersistentVolume list"
  failing :: "clientOp \<Rightarrow> error option"
  writes :: "clientOp list"
  IncompleteProfileGauge :: nat

definition called :: "clientOp \<Rightarrow> cluster \<Rightarrow> cluster" where
  "called op s = s\<lparr>writes := writes s @ [op]\<rparr>"

definition IsNotFound :: "error \<Rightarrow> bool" where
  "IsNotFound err = (err = NotFound)"

text \<open>
  Modelled from the spec: \<^verbatim>\<open>IgnoreNotFound\<close> is a helper of \<^verbatim>\<open>pkg/controller\<close> that is not
  among the sources, and the specification has no words for it. It is taken by its name and
  its use: nil for a NotFound error, any other error unchanged.
\<close>

definition IgnoreNotFound :: "error option \<Rightarrow> error option" where
  "IgnoreNotFound err = (case err of Some e \<Rightarrow> if IsNotFound e then None else Some e | None \<Rightarrow> None)"

definition clientGetStorageClass :: "string \<Rightarrow> cluster \<Rightarrow> error + StorageClass" where
  "clientGetStorageClass name s =
     (case failing s GetStorageClass of
        Some err \<Rightarrow> Inl err
      | None \<Rightarrow> (case find (\<lambda>sc. Name sc = name) (storageClasses s) of
                   None \<Rightarrow> Inl NotFound
                 | Some sc \<Rightarrow> Inr sc))"

definition clientGetStorageProfile :: "string \<Rightarrow> cluster \<Rightarrow> error + StorageProfile" where
  "clientGetStorageProfile name s =
     (case failing s GetStorageProfile of
        Some err \<Rightarrow> Inl err
      | None \<Rightarrow> (case find (\<lambda>p. profileName p = name) (storageProfiles s) of
                   None \<Rightarrow> Inl NotFound
                 | Some p \<Rightarrow> Inr p))"

definition clientCreate :: "StorageProfile \<Rightarrow> cluster \<Rightarrow> error option \<times> cluster" where
  "clientCreate p s =
     (case failing s CreateStorageProfile of
        Some err \<Rightarrow> (Some err, called CreateStorageProfile s)
      | None \<Rightarrow>
          if \<exists>q \<in> set (storageProfiles s). profileName q = profileName p
          then (Some AlreadyExists, called CreateStorageProfile s)
          else (None, called CreateStorageProfile (s\<lparr>storageProfiles := storageProfiles s @ [p]\<rparr>)))"

definition clientUpdate :: "StorageProfile \<Rightarrow> cluster \<Rightarrow> error option \<times> cluster" where
  "clientUpdate p s =
     (case failing s UpdateStorageProfile of
        Some err \<Rightarrow> (Some err, called UpdateStorageProfile s)
      | None \<Rightarrow>
          if \<exists>q \<in> set (storageProfiles s). profileName q = profileName p
          then (None, called UpdateStorageProfile
                  (s\<lparr>storageProfiles :=
                       map (\<lambda>q. if profileName q = profileName p then p else q) (storageProfiles s)\<rparr>))
          else (Some NotFound, called UpdateStorageProfile s))"

definition clientDelete :: "string \<Rightarrow> cluster \<Rightarrow> error option \<times> cluster" where
  "clientDelete name s =
     (case failing s DeleteStorageProfile of
        Some err \<Rightarrow> (Some err, called DeleteStorageProfile s)
      | None \<Rightarrow>
          if \<exists>q \<in> set (storageProfiles s). profileName q = name
          then (None, called DeleteStorageProfile
                  (s\<lparr>storageProfiles := filter (\<lambda>q. profileName q \<noteq> name) (storageProfiles s)\<rparr>))
          else (Some NotFound, called DeleteStorageProfile s))"

definition clientListStorageProfiles :: "cluster \<Rightarrow> error + StorageProfile list" where
  "clientListStorageProfiles s =
     (case failing s ListStorageProfiles of
        Some err \<Rightarrow> Inl err
      | None \<Rightarrow> Inr (storageProfiles s))"

definition clientListPersistentVolumes :: "cluster \<Rightarrow> error + PersistentVolume list" where
  "clientListPersistentVolumes s =
     (case failing s ListPersistentVolumes of
        Some err \<Rightarrow> Inl err
      | None \<Rightarrow> Inr (persistentVolumes s))"

subsection \<open>pkg/util: labels\<close>

definition MergeLabels :: "(string \<rightharpoonup> string) \<Rightarrow> (string \<rightharpoonup> string) \<Rightarrow> (string \<rightharpoonup> string)" where
  "MergeLabels src dest = dest ++ src"

definition SetRecommendedLabels ::
  "common \<Rightarrow> StorageProfile \<Rightarrow> (string \<rightharpoonup> string) \<Rightarrow> string \<Rightarrow> StorageProfile" where
  "SetRecommendedLabels c obj installerLabels' controllerName =
     (let staticLabels = [AppKubernetesManagedByLabel c \<mapsto> controllerName,
                          AppKubernetesComponentLabel c \<mapsto> ''storage''];
          mergedLabels = MergeLabels staticLabels (profileLabels obj);
          mergedLabels = MergeLabels installerLabels' mergedLabels
      in obj\<lparr>profileLabels := mergedLabels\<rparr>)"

subsection \<open>storageprofile-controller.go\<close>

definition isIncomplete :: "ClaimPropertySet list \<Rightarrow> bool" where
  "isIncomplete sets =
     (if length sets > 0
      then (case find (\<lambda>cps. length (AccessModes cps) = 0 \<or> cpsVolumeMode cps = None) sets of
              Some cps \<Rightarrow> True
            | None \<Rightarrow> False)
      else True)"

definition checkIncompleteProfiles :: "cluster \<Rightarrow> error option \<times> cluster" where
  "checkIncompleteProfiles s =
     (case clientListStorageProfiles s of
        Inl err \<Rightarrow> (Some err, s)
      | Inr items \<Rightarrow>
          (let numIncomplete =
                 fold (\<lambda>profile n. if isIncomplete (statusClaimPropertySets (Status profile))
                                    then n + 1 else n) items 0
           in (None, s\<lparr>IncompleteProfileGauge := numIncomplete\<rparr>)))"

definition MakeEmptyStorageProfileSpec :: "common \<Rightarrow> string \<Rightarrow> StorageProfile" where
  "MakeEmptyStorageProfileSpec c name =
     \<lparr>profileName = name,
      profileLabels = [CDILabelKey c \<mapsto> CDILabelValue c, CDIComponentLabel c \<mapsto> ''''],
      profileOwnerReferences = [],
      Spec = \<lparr>specCloneStrategy = None, specClaimPropertySets = []\<rparr>,
      Status = \<lparr>statusStorageClass = None, statusProvisioner = None,
                statusCloneStrategy = None, statusClaimPropertySets = []\<rparr>\<rparr>"

definition createEmptyStorageProfile :: "StorageProfileReconciler \<Rightarrow> StorageClass \<Rightarrow> error + StorageProfile" where
  "createEmptyStorageProfile r sc =
     (let storageProfile = MakeEmptyStorageProfileSpec (commonConsts r) (Name sc);
          storageProfile = SetRecommendedLabels (commonConsts r) storageProfile (installerLabels r) ''cdi-controller''
      in case SetOwnerRuntime r of
           Inl err \<Rightarrow> Inl err
         | Inr owner \<Rightarrow> Inr (storageProfile\<lparr>profileOwnerReferences := [owner]\<rparr>))"

definition getStorageProfile ::
  "StorageProfileReconciler \<Rightarrow> StorageClass \<Rightarrow> cluster
     \<Rightarrow> error + StorageProfile \<times> StorageProfile option" where
  "getStorageProfile r sc s =
     (case clientGetStorageProfile (Name sc) s of
        Inl err \<Rightarrow>
          if IsNotFound err
          then (case createEmptyStorageProfile r sc of
                  Inl err' \<Rightarrow> Inl err'
                | Inr storageProfile \<Rightarrow> Inr (storageProfile, None))
          else Inl err
      | Inr storageProfile \<Rightarrow> Inr (storageProfile, Some storageProfile))"

definition reconcilePropertySets ::
  "StorageProfileReconciler \<Rightarrow> StorageClass \<Rightarrow> cluster \<Rightarrow> ClaimPropertySet list" where
  "reconcilePropertySets r sc s =
     (case Get (capabilityRank r) (clientListPersistentVolumes s) sc of
        (capabilities, found) \<Rightarrow>
          if found
          then map (\<lambda>capability. \<lparr>AccessModes = [AccessMode capability],
                                   cpsVolumeMode = Some (VolumeMode capability)\<rparr>) capabilities
          else [])"

definition reconcileCloneStrategy :: "StorageClass \<Rightarrow> CDICloneStrategy option \<Rightarrow> CDICloneStrategy option" where
  "reconcileCloneStrategy sc clonestrategy =
     (if clonestrategy = None
      then (if lookup0 (Annotations sc) ''cdi.kubevirt.io/clone-strategy'' = ''copy''
            then Some CloneStrategyHostAssisted
            else if lookup0 (Annotations sc) ''cdi.kubevirt.io/clone-strategy'' = ''snapshot''
            then Some CloneStrategySnapshot
            else if lookup0 (Annotations sc) ''cdi.kubevirt.io/clone-strategy'' = ''csi-clone''
            then Some CloneStrategyCsiClone
            else clonestrategy)
      else clonestrategy)"

text \<open>
  \<^verbatim>\<open>reflect.DeepEqual\<close> on the previous and the new profile is equality of the modelled
  fields (a nil slice and an empty one are the same list here).
\<close>

definition updateStorageProfile ::
  "StorageProfile option \<Rightarrow> StorageProfile \<Rightarrow> cluster \<Rightarrow> error option \<times> cluster" where
  "updateStorageProfile prevStorageProfile storageProfile s =
     (if prevStorageProfile = None then clientCreate storageProfile s
      else if prevStorageProfile \<noteq> Some storageProfile then clientUpdate storageProfile s
      else (None, s))"

definition showVolumeMode :: "PersistentVolumeMode \<Rightarrow> string" where
  "showVolumeMode m = (case m of PersistentVolumeBlock \<Rightarrow> ''Block'' | PersistentVolumeFilesystem \<Rightarrow> ''Filesystem'')"

definition reconcileStorageProfile ::
  "StorageProfileReconciler \<Rightarrow> StorageClass \<Rightarrow> cluster \<Rightarrow> error option \<times> cluster" where
  "reconcileStorageProfile r sc s =
     (case getStorageProfile r sc s of
        Inl err \<Rightarrow> (Some err, s)
      | Inr (storageProfile, prevStorageProfile) \<Rightarrow>
          (let storageProfile = storageProfile\<lparr>Status := (Status storageProfile)
                 \<lparr>statusStorageClass := Some (Name sc),
                  statusProvisioner := Some (Provisioner sc),
                  statusCloneStrategy :=
                    reconcileCloneStrategy sc (specCloneStrategy (Spec storageProfile))\<rparr>\<rparr>
           in case (if length (specClaimPropertySets (Spec storageProfile)) > 0
                    then (case find (\<lambda>cps. length (AccessModes cps) = 0 \<and> cpsVolumeMode cps \<noteq> None)
                                    (specClaimPropertySets (Spec storageProfile)) of
                            Some cps \<Rightarrow>
                              Inl (Errorf (''must provide access mode for volume mode: '' @
                                           showVolumeMode (the (cpsVolumeMode cps))))
                          | None \<Rightarrow> Inr (specClaimPropertySets (Spec storageProfile)))
                    else Inr (reconcilePropertySets r sc s)) of
                Inl err \<Rightarrow> (Some err, s)
              | Inr claimPropertySets \<Rightarrow>
                  (let storageProfile = storageProfile\<lparr>Status := (Status storageProfile)
                         \<lparr>statusClaimPropertySets := claimPropertySets\<rparr>\<rparr>;
                       storageProfile = SetRecommendedLabels (commonConsts r) storageProfile
                                          (installerLabels r) ''cdi-controller''
                   in updateStorageProfile prevStorageProfile storageProfile s)))"

definition deleteStorageProfile :: "string \<Rightarrow> cluster \<Rightarrow> error option \<times> cluster" where
  "deleteStorageProfile name s =
     (case clientDelete name s of
        (err, s1) \<Rightarrow>
          (case IgnoreNotFound err of
             Some err' \<Rightarrow> (Some err', s1)
           | None \<Rightarrow> checkIncompleteProfiles s1))"

definition Reconcile :: "StorageProfileReconciler \<Rightarrow> string \<Rightarrow> cluster \<Rightarrow> error option \<times> cluster" where
  "Reconcile r name s =
     (case clientGetStorageClass name s of
        Inl err \<Rightarrow>
          if IsNotFound err then deleteStorageProfile name s else (Some err, s)
      | Inr storageClass \<Rightarrow>
          if DeletionTimestamp storageClass \<noteq> None then deleteStorageProfile name s
          else (case reconcileStorageProfile r storageClass s of
                  (Some err, s1) \<Rightarrow> (Some err, s1)
                | (None, s1) \<Rightarrow> checkIncompleteProfiles s1))"

subsection \<open>Reference definitions and concrete inputs for the reconciler\<close>

text \<open>
  The specification's words for an incomplete profile: its property sets lack an access mode
  or a volume mode, where an empty list of sets lacks both.
\<close>

definition lacksAccessModeOrVolumeMode :: "ClaimPropertySet list \<Rightarrow> bool" where
  "lacksAccessModeOrVolumeMode sets =
     (sets = [] \<or> (\<exists>cps \<in> set sets. AccessModes cps = [] \<or> cpsVolumeMode cps = None))"

definition labels0 :: common where
  "labels0 = \<lparr>AppKubernetesManagedByLabel = ''app.kubernetes.io/managed-by'',
     AppKubernetesComponentLabel = ''app.kubernetes.io/component'',
     CDILabelKey = ''app'', CDILabelValue = ''containerized-data-importer'',
     CDIComponentLabel = ''cdi.kubevirt.io''\<rparr>"

definition reconciler0 :: StorageProfileReconciler where
  "reconciler0 = \<lparr>commonConsts = labels0, installerLabels = Map.empty,
     SetOwnerRuntime = Inr ''cdi'', capabilityRank = byInsertion\<rparr>"

definition noFailure :: "clientOp \<Rightarrow> error option" where
  "noFailure op = None"

definition sc_snapshot :: StorageClass where
  "sc_snapshot = \<lparr>Name = ''fast'', Provisioner = ''rbd.csi.ceph.com'',
     Parameters = Map.empty, Labels = Map.empty,
     Annotations = [''cdi.kubevirt.io/clone-strategy'' \<mapsto> ''snapshot''], DeletionTimestamp = None\<rparr>"

definition cluster_empty :: cluster where
  "cluster_empty = \<lparr>storageClasses = [sc_manual, sc_snapshot], storageProfiles = [],
     persistentVolumes = [], failing = noFailure, writes = [], IncompleteProfileGauge = 0\<rparr>"

definition profile_bad :: StorageProfile where
  "profile_bad = \<lparr>profileName = ''manual'', profileLabels = Map.empty, profileOwnerReferences = [],
     Spec = \<lparr>specCloneStrategy = None,
              specClaimPropertySets = [\<lparr>AccessModes = [], cpsVolumeMode = Some PersistentVolumeBlock\<rparr>]\<rparr>,
     Status = \<lparr>statusStorageClass = None, statusProvisioner = None,
                statusCloneStrategy = None, statusClaimPropertySets = []\<rparr>\<rparr>"

definition cluster_bad :: cluster where
  "cluster_bad = \<lparr>storageClasses = [sc_manual], storageProfiles = [profile_bad],
     persistentVolumes = [], failing = noFailure, writes = [], IncompleteProfileGauge = 0\<rparr>"

section \<open>pkg/importer: format readers\<close>

text \<open>
  Readers are objects of the Go runtime: a reader is a handle \<open>'r\<close>, and the state of all
  reader objects and of the streams below them is a world \<open>'w\<close> that every operation of the
  standard library takes and returns. The operations are parameters, so whatever is proved
  holds for every behaviour of the streams and decompressors. \<open>iface\<close> records whether the
  dynamic type of a reader value implements \<^verbatim>\<open>io.Closer\<close>; \<^verbatim>\<open>ioutil.NopCloser\<close> wraps the
  ones that do not, and closing such a wrapper returns nil.
\<close>

datatype 'r iface = Closer 'r | NonCloser 'r

definition handle :: "'r iface \<Rightarrow> 'r" where
  "handle x = (case x of Closer r \<Rightarrow> r | NonCloser r \<Rightarrow> r)"

definition isCloser :: "'r iface \<Rightarrow> bool" where
  "isCloser x = (case x of Closer r \<Rightarrow> True | NonCloser r \<Rightarrow> False)"

record ('r, 'w) io =
  ioReadFull :: "'r \<Rightarrow> string \<Rightarrow> 'w \<Rightarrow> (string \<times> error option) \<times> 'w"
  bytesNewReader :: "string \<Rightarrow> 'w \<Rightarrow> 'r \<times> 'w"
  ioMultiReader :: "'r \<Rightarrow> 'r \<Rightarrow> 'w \<Rightarrow> 'r \<times> 'w"
  gzipNewReader :: "'r \<Rightarrow> 'w \<Rightarrow> (error + 'r) \<times> 'w"
  xzNewReader :: "'r \<Rightarrow> 'w \<Rightarrow> (error + 'r) \<times> 'w"
  ioClose :: "'r \<Rightarrow> 'w \<Rightarrow> error option \<times> 'w"

text \<open>
  \<^verbatim>\<open>image.Header\<close> with the fields this file reads; its method \<^verbatim>\<open>Match\<close>, the table behind
  \<^verbatim>\<open>image.CopyKnownHdrs\<close> and \<^verbatim>\<open>image.MaxExpectedHdrSize\<close> belong to \<^verbatim>\<open>pkg/image\<close> and are
  parameters.
\<close>

record Header =
  Format :: string
  SizeOff :: int
  SizeLen :: int

record 'r reader =
  rdrType :: int
  rdr :: 'r
  nopCloser :: bool

record 'r FormatReaders =
  readers :: "'r reader list"
  buf :: string
  Convert :: bool
  Archived :: bool
  ArchiveXz :: bool
  ArchiveGz :: bool

definition rdrGz :: int where "rdrGz = 0"
definition rdrMulti :: int where "rdrMulti = 1"
definition rdrXz :: int where "rdrXz = 2"
definition rdrStream :: int where "rdrStream = 3"

definition rdrTypM :: "string \<Rightarrow> int" where
  "rdrTypM k = (case map_of [(''gz'', rdrGz), (''xz'', rdrXz), (''stream'', rdrStream)] k of
                  Some t \<Rightarrow> t | None \<Rightarrow> 0)"

text \<open>A panic of the Go runtime is the error \<open>Panic\<close> on the left of the result.\<close>

definition TopReader :: "'r FormatReaders \<Rightarrow> error + 'r" where
  "TopReader fr =
     (if readers fr = [] then Inl (Panic ''index out of range'')
      else Inr (rdr (readers fr ! (length (readers fr) - 1))))"

definition appendReader ::
  "('r, 'w) io \<Rightarrow> int \<Rightarrow> 'r iface option \<Rightarrow> 'r FormatReaders \<Rightarrow> 'w
     \<Rightarrow> error + 'r FormatReaders \<times> 'w" where
  "appendReader env rType x fr w =
     (case x of
        None \<Rightarrow> Inr (fr, w)
      | Some r \<Rightarrow>
          (case (if rType = rdrMulti
                 then (case TopReader fr of
                         Inl p \<Rightarrow> Inl p
                       | Inr topRdr \<Rightarrow>
                           (case ioMultiReader env (handle r) topRdr w of
                              (m, w1) \<Rightarrow> Inr (NonCloser m, w1)))
                 else Inr (r, w)) of
             Inl p \<Rightarrow> Inl p
           | Inr (r, w1) \<Rightarrow>
               Inr (fr\<lparr>readers := readers fr @
                         [\<lparr>rdrType = rType, rdr = handle r, nopCloser = (\<not> isCloser r)\<rparr>]\<rparr>, w1)))"

definition read ::
  "('r, 'w) io \<Rightarrow> 'r FormatReaders \<Rightarrow> 'w \<Rightarrow> error + error option \<times> 'r FormatReaders \<times> 'w" where
  "read env fr w =
     (case TopReader fr of
        Inl p \<Rightarrow> Inl p
      | Inr topRdr \<Rightarrow>
          (case ioReadFull env topRdr (buf fr) w of
             ((b, err), w1) \<Rightarrow> Inr (err, fr\<lparr>buf := b\<rparr>, w1)))"

definition matchHeader ::
  "('r, 'w) io \<Rightarrow> (Header \<Rightarrow> string \<Rightarrow> bool) \<Rightarrow> ((string \<times> Header) list \<Rightarrow> string \<Rightarrow> nat)
     \<Rightarrow> (string \<times> Header) list \<Rightarrow> 'r FormatReaders \<Rightarrow> 'w
     \<Rightarrow> error + (Header option \<times> error option) \<times> (string \<times> Header) list \<times> 'r FormatReaders \<times> 'w" where
  "matchHeader env Match rank knownHdrs fr w =
     (case read env fr w of
        Inl p \<Rightarrow> Inl p
      | Inr (Some err, fr1, w1) \<Rightarrow> Inr ((None, Some err), knownHdrs, fr1, w1)
      | Inr (None, fr1, w1) \<Rightarrow>
          (case bytesNewReader env (buf fr1) w1 of
             (b, w2) \<Rightarrow>
               (case appendReader env rdrMulti (Some (NonCloser b)) fr1 w2 of
                  Inl p \<Rightarrow> Inl p
                | Inr (fr2, w3) \<Rightarrow>
                    (case find (\<lambda>(format, kh). Match kh (buf fr2))
                               (range_order (rank knownHdrs) knownHdrs) of
                       Some (format, kh) \<Rightarrow>
                         Inr ((Some kh, None), AList.delete format knownHdrs, fr2, w3)
                     | None \<Rightarrow> Inr ((None, None), knownHdrs, fr2, w3)))))"

definition gzReader ::
  "('r, 'w) io \<Rightarrow> 'r FormatReaders \<Rightarrow> 'w \<Rightarrow> error + ('r iface option \<times> error option) \<times> 'w" where
  "gzReader env fr w =
     (case TopReader fr of
        Inl p \<Rightarrow> Inl p
      | Inr topRdr \<Rightarrow>
          (case gzipNewReader env topRdr w of
             (Inl err, w1) \<Rightarrow> Inr ((None, Some (Wrapped ''could not create gzip reader'' err)), w1)
           | (Inr gz, w1) \<Rightarrow> Inr ((Some (Closer gz), None), w1)))"

definition xzReader ::
  "('r, 'w) io \<Rightarrow> 'r FormatReaders \<Rightarrow> 'w \<Rightarrow> error + ('r iface option \<times> error option) \<times> 'w" where
  "xzReader env fr w =
     (case TopReader fr of
        Inl p \<Rightarrow> Inl p
      | Inr topRdr \<Rightarrow>
          (case xzNewReader env topRdr w of
             (Inl err, w1) \<Rightarrow> Inr ((None, Some (Wrapped ''could not create xz reader'' err)), w1)
           | (Inr xz, w1) \<Rightarrow> Inr ((Some (NonCloser xz), None), w1)))"

text \<open>
  \<^verbatim>\<open>hex.EncodeToString\<close> followed by \<^verbatim>\<open>strconv.ParseInt(s, 16, 64)\<close> reads the bytes as a
  big-endian number and fails on no digits and on a value beyond the largest int64.
\<close>

definition qcow2NopReader :: "'r FormatReaders \<Rightarrow> Header \<Rightarrow> error + 'r iface option \<times> error option" where
  "qcow2NopReader fr h =
     (if \<not> (0 \<le> SizeOff h \<and> SizeOff h \<le> SizeOff h + SizeLen h \<and>
             SizeOff h + SizeLen h \<le> int (length (buf fr)))
      then Inl (Panic ''slice bounds out of range'')
      else (let s = take (nat (SizeLen h)) (drop (nat (SizeOff h)) (buf fr));
                v = foldl (\<lambda>a b. a * 256 + of_char b) (0::nat) s
            in if s = [] \<or> v \<ge> 2 ^ 63
               then Inr (None, Some (Errorf ''unable to determine original qcow2 file size''))
               else Inr (None, None)))"

definition fileFormatSelector ::
  "('r, 'w) io \<Rightarrow> Header \<Rightarrow> 'r FormatReaders \<Rightarrow> 'w \<Rightarrow> error + 'r FormatReaders \<times> 'w" where
  "fileFormatSelector env hdr fr w =
     (let fFmt = Format hdr
      in case (if fFmt = ''gz''
               then (case gzReader env fr w of
                       Inl p \<Rightarrow> Inl p
                     | Inr ((r, err), w1) \<Rightarrow>
                         Inr (r, err, (if err = None then fr\<lparr>Archived := True, ArchiveGz := True\<rparr> else fr), w1))
               else if fFmt = ''qcow2''
               then (case qcow2NopReader fr hdr of
                       Inl p \<Rightarrow> Inl p
                     | Inr (r, err) \<Rightarrow> Inr (r, err, fr\<lparr>Convert := True\<rparr>, w))
               else if fFmt = ''xz''
               then (case xzReader env fr w of
                       Inl p \<Rightarrow> Inl p
                     | Inr ((r, err), w1) \<Rightarrow>
                         Inr (r, err, (if err = None then fr\<lparr>Archived := True, ArchiveXz := True\<rparr> else fr), w1))
               else if fFmt = ''vmdk'' \<or> fFmt = ''vdi'' \<or> fFmt = ''vhd'' \<or> fFmt = ''vhdx''
               then Inr (None, None, fr\<lparr>Convert := True\<rparr>, w)
               else Inr (None, None, fr, w)) of
           Inl p \<Rightarrow> Inl p
         | Inr (r, err, fr1, w1) \<Rightarrow>
             if err = None \<and> r \<noteq> None then appendReader env (rdrTypM fFmt) r fr1 w1
             else Inr (fr1, w1))"

text \<open>
  The detection loop of \<^verbatim>\<open>constructReaders\<close>. It ends because every pass that goes on has
  removed a key from the known headers; \<open>found\<close> collects what the loop logs with
  \<^verbatim>\<open>found header of type\<close>, the format of each header matched.
\<close>

lemma matchHeader_SomeD:
  assumes "matchHeader env Match rank knownHdrs fr w = Inr ((Some h, err), knownHdrs1, fr1, w1)"
  shows "\<exists>format. find (\<lambda>(format, kh). Match kh (buf fr1))
                         (range_order (rank knownHdrs) knownHdrs) = Some (format, h) \<and>
                  knownHdrs1 = AList.delete format knownHdrs \<and> err = None"
  using assms
  by (auto simp: matchHeader_def split: sum.splits option.splits prod.splits)

lemma find_Some_in_set: "find P xs = Some x \<Longrightarrow> P x \<and> x \<in> set xs"
  by (induction xs) (auto split: if_splits)

lemma matchHeader_shrinks:
  assumes "matchHeader env Match rank knownHdrs fr w = Inr ((Some h, err), knownHdrs1, fr1, w1)"
  shows "length knownHdrs1 < length knownHdrs"
proof -
  from matchHeader_SomeD [OF assms] obtain format where
    f: "find (\<lambda>(format, kh). Match kh (buf fr1)) (range_order (rank knownHdrs) knownHdrs) = Some (format, h)"
    and k: "knownHdrs1 = AList.delete format knownHdrs"
    by blast
  from find_Some_in_set [OF f] have "(format, h) \<in> set knownHdrs"
    by (simp add: range_order_def)
  then have "length (filter (\<lambda>(k', _). format \<noteq> k') knownHdrs) < length knownHdrs"
    by (intro length_filter_less [where x = "(format, h)"]) auto
  then show ?thesis
    by (simp add: k AList.delete_eq)
qed

function constructLoop ::
  "('r, 'w) io \<Rightarrow> (Header \<Rightarrow> string \<Rightarrow> bool) \<Rightarrow> ((string \<times> Header) list \<Rightarrow> string \<Rightarrow> nat)
     \<Rightarrow> (string \<times> Header) list \<Rightarrow> 'r FormatReaders \<Rightarrow> 'w \<Rightarrow> string list
     \<Rightarrow> error + error option \<times> 'r FormatReaders \<times> 'w \<times> string list" where
  "constructLoop env Match rank knownHdrs fr w found =
     (case matchHeader env Match rank knownHdrs fr w of
        Inl p \<Rightarrow> Inl p
      | Inr ((hdr, err), knownHdrs1, fr1, w1) \<Rightarrow>
          (case err of
             Some e \<Rightarrow> Inr (Some (Wrapped ''could not process image header'' e), fr1, w1, found)
           | None \<Rightarrow>
               (case hdr of
                  None \<Rightarrow> Inr (None, fr1, w1, found)
                | Some h \<Rightarrow>
                    (case fileFormatSelector env h fr1 w1 of
                       Inl p \<Rightarrow> Inl p
                     | Inr (fr2, w2) \<Rightarrow>
                         if Format h = ''qcow2'' then Inr (None, fr2, w2, found @ [Format h])
                         else constructLoop env Match rank knownHdrs1 fr2 w2 (found @ [Format h])))))"
  by pat_completeness auto
termination
  by (relation "measure (\<lambda>(env, Match, rank, knownHdrs, fr, w, found). length knownHdrs)")
     (auto dest: matchHeader_shrinks)

definition constructReaders ::
  "('r, 'w) io \<Rightarrow> (Header \<Rightarrow> string \<Rightarrow> bool) \<Rightarrow> ((string \<times> Header) list \<Rightarrow> string \<Rightarrow> nat)
     \<Rightarrow> (string \<times> Header) list \<Rightarrow> 'r iface option \<Rightarrow> 'r FormatReaders \<Rightarrow> 'w
     \<Rightarrow> error + error option \<times> 'r FormatReaders \<times> 'w \<times> string list" where
  "constructReaders env Match rank CopyKnownHdrs r fr w =
     (case appendReader env (rdrTypM ''stream'') r fr w of
        Inl p \<Rightarrow> Inl p
      | Inr (fr1, w1) \<Rightarrow>
          (let knownHdrs = CopyKnownHdrs
           in constructLoop env Match rank knownHdrs fr1 w1 []))"

text \<open>
  \<^verbatim>\<open>Close\<close>: the loop \<^verbatim>\<open>for i := len(fr.readers) - 1; i >= 0; i--\<close>, with the number of
  readers still to close as its counter. \<open>closeWalk\<close> and \<open>lastError\<close> are the reference:
  closing a list of readers one after the other, and the last error of a list of results.
\<close>

definition closeReader :: "('r, 'w) io \<Rightarrow> 'r reader \<Rightarrow> 'w \<Rightarrow> error option \<times> 'w" where
  "closeReader env rd w = (if nopCloser rd then (None, w) else ioClose env (rdr rd) w)"

fun closeFrom ::
  "('r, 'w) io \<Rightarrow> 'r reader list \<Rightarrow> nat \<Rightarrow> error option \<Rightarrow> 'w \<Rightarrow> error option \<times> 'w" where
  "closeFrom env rs 0 rtnerr w = (rtnerr, w)"
| "closeFrom env rs (Suc i) rtnerr w =
     (case closeReader env (rs ! i) w of
        (err, w1) \<Rightarrow> closeFrom env rs i (if err \<noteq> None then err else rtnerr) w1)"

definition Close :: "('r, 'w) io \<Rightarrow> 'r FormatReaders \<Rightarrow> 'w \<Rightarrow> error option \<times> 'w" where
  "Close env fr w = closeFrom env (readers fr) (length (readers fr)) None w"

fun closeWalk :: "('r, 'w) io \<Rightarrow> 'r reader list \<Rightarrow> 'w \<Rightarrow> error option list \<times> 'w" where
  "closeWalk env [] w = ([], w)"
| "closeWalk env (rd # rds) w =
     (case closeReader env rd w of
        (err, w1) \<Rightarrow> (case closeWalk env rds w1 of (errs, w2) \<Rightarrow> (err # errs, w2)))"

definition lastError :: "error option list \<Rightarrow> error option" where
  "lastError errs = (case filter (\<lambda>e. e \<noteq> None) errs of [] \<Rightarrow> None | e # es \<Rightarrow> last (e # es))"

subsection \<open>Concrete inputs for the format readers\<close>

text \<open>
  A small concrete world: readers are numbered, the world is the bytes still to be read
  from the top of the stack; a multi-reader puts the header back in front, and the toy
  decompressors strip a two-byte magic.
\<close>

definition io0 :: "(nat, string) io" where
  "io0 = \<lparr>ioReadFull = (\<lambda>r b w. if length b \<le> length w
                               then ((take (length b) w, None), drop (length b) w)
                               else ((w @ drop (length w) b, Some (Errorf ''unexpected EOF'')), [])),
           bytesNewReader = (\<lambda>b w. (1, b @ w)),
           ioMultiReader = (\<lambda>a t w. (2, w)),
           gzipNewReader = (\<lambda>t w. (Inr 3, drop 2 w)),
           xzNewReader = (\<lambda>t w. (Inr 4, drop 2 w)),
           ioClose = (\<lambda>r w. (None, w))\<rparr>"

definition Match0 :: "Header \<Rightarrow> string \<Rightarrow> bool" where
  "Match0 h b = (take 2 b = (if Format h = ''gz'' then ''GZ''
                              else if Format h = ''qcow2'' then ''QF'' else ''--''))"

definition knownHdrs0 :: "(string \<times> Header) list" where
  "knownHdrs0 = [(''gz'', \<lparr>Format = ''gz'', SizeOff = 0, SizeLen = 0\<rparr>),
                 (''qcow2'', \<lparr>Format = ''qcow2'', SizeOff = 0, SizeLen = 2\<rparr>)]"

definition rank0 :: "(string \<times> Header) list \<Rightarrow> string \<Rightarrow> nat" where
  "rank0 m k = 0"

definition frEmpty :: "nat FormatReaders" where
  "frEmpty = \<lparr>readers = [], buf = ''00'', Convert = False, Archived = False,
          ArchiveXz = False, ArchiveGz = False\<rparr>"

definition frDone :: "nat FormatReaders" where
  "frDone = \<lparr>readers =
         [\<lparr>rdrType = 3, rdr = 0, nopCloser = False\<rparr>,
          \<lparr>rdrType = 1, rdr = 2, nopCloser = True\<rparr>,
          \<lparr>rdrType = 0, rdr = 3, nopCloser = False\<rparr>,
          \<lparr>rdrType = 1, rdr = 2, nopCloser = True\<rparr>],
         buf = ''GZ'', Convert = False, Archived = True, ArchiveXz = False,
         ArchiveGz = True\<rparr>"

definition frS :: "nat FormatReaders" where
  "frS = \<lparr>readers = [\<lparr>rdrType = 3, rdr = 0, nopCloser = False\<rparr>], buf = ''00'',
          Convert = False, Archived = False, ArchiveXz = False, ArchiveGz = False\<rparr>"

definition frM :: "nat FormatReaders" where
  "frM = \<lparr>readers = [\<lparr>rdrType = 3, rdr = 0, nopCloser = False\<rparr>,
                     \<lparr>rdrType = 1, rdr = 2, nopCloser = True\<rparr>], buf = ''GZ'',
          Convert = False, Archived = False, ArchiveXz = False, ArchiveGz = False\<rparr>"

definition hdr_gz :: Header where
  "hdr_gz = \<lparr>Format = ''gz'', SizeOff = 0, SizeLen = 0\<rparr>"

definition hdr_qcow2 :: Header where
  "hdr_qcow2 = \<lparr>Format = ''qcow2'', SizeOff = 0, SizeLen = 2\<rparr>"

text \<open>A world that logs the readers closed, where closing the stream and the gzip reader fails.\<close>

definition ioC :: "(nat, nat list) io" where
  "ioC = \<lparr>ioReadFull = (\<lambda>r b w. ((b, None), w)),
           bytesNewReader = (\<lambda>b w. (1, w)),
           ioMultiReader = (\<lambda>a t w. (2, w)),
           gzipNewReader = (\<lambda>t w. (Inr 3, w)),
           xzNewReader = (\<lambda>t w. (Inr 4, w)),
           ioClose = (\<lambda>r w. (if r = 0 then Some (ApiError ''stream'')
                                else if r = 3 then Some (ApiError ''gzip'') else None, w @ [r]))\<rparr>"

section \<open>pkg/util: the termination message\<close>

text \<open>
  A Go string is its bytes. \<^verbatim>\<open>strings.ReplaceAll\<close> is written out for a pattern and a
  replacement of one byte each, which is how the code calls it. \<open>scanFirstLine\<close> is
  \<^verbatim>\<open>bufio.NewScanner(strings.NewReader(s))\<close> followed by one \<^verbatim>\<open>Scan()\<close> and \<^verbatim>\<open>Text()\<close>: the
  default split function yields the bytes before the first newline without a trailing
  carriage return; there is no token when the input is empty, or when the line does not fit
  the scanner's buffer of \<^verbatim>\<open>bufio.MaxScanTokenSize\<close> bytes. The file system is a parameter:
  \<open>WriteFile\<close> gives the error of \<^verbatim>\<open>ioutil.WriteFile\<close>, if any, and the result records the
  call made.
\<close>

definition newline :: char where
  "newline = CHR 0x0A"

definition carriageReturn :: char where
  "carriageReturn = CHR 0x0D"

definition ReplaceAll :: "string \<Rightarrow> char \<Rightarrow> char \<Rightarrow> string" where
  "ReplaceAll s old new = map (\<lambda>c. if c = old then new else c) s"

definition MaxScanTokenSize :: nat where
  "MaxScanTokenSize = 64 * 1024"

definition dropCR :: "string \<Rightarrow> string" where
  "dropCR data = (if length data > 0 \<and> data ! (length data - 1) = carriageReturn
                  then take (length data - 1) data else data)"

definition scanFirstLine :: "string \<Rightarrow> string option" where
  "scanFirstLine input =
     (if input = [] then None
      else (let line = takeWhile (\<lambda>c. c \<noteq> newline) input
            in if length line \<ge> MaxScanTokenSize then None else Some (dropCR line)))"

definition WriteTerminationMessageToFile ::
  "(string \<Rightarrow> string \<Rightarrow> error option) \<Rightarrow> string \<Rightarrow> string
     \<Rightarrow> (string \<times> string) option \<times> error option" where
  "WriteTerminationMessageToFile WriteFile file message =
     (let message = ReplaceAll message newline (CHR '' '')
      in case scanFirstLine message of
           Some line \<Rightarrow>
             (case WriteFile file line of
                Some err \<Rightarrow>
                  (Some (file, line), Some (Wrapped ''could not create termination message file'' err))
              | None \<Rightarrow> (Some (file, line), None))
         | None \<Rightarrow> (None, None))"

definition writeOk :: "string \<Rightarrow> string \<Rightarrow> error option" where
  "writeOk file data = None"

section \<open>The DataVolume mutating webhook\<close>

text \<open>
  The admission review arrives with a request; \<open>reqObject\<close> and \<open>reqOldObject\<close> are what
  \<^verbatim>\<open>json.Unmarshal\<close> makes of the raw object and the raw old object. The webhook's clients,
  its token generator, \<^verbatim>\<open>validateDataVolumeResource\<close>, \<^verbatim>\<open>clone.CanUserClonePVC\<close> (the
  SubjectAccessReview check) and the constants of \<^verbatim>\<open>pkg/common\<close> and \<^verbatim>\<open>pkg/controller\<close> are
  fields of \<open>dataVolumeMutatingWebhook\<close>. The four ways the code builds a response are the
  constructors of \<open>AdmissionResponse\<close>; a patch response carries the two objects whose
  difference is the patch. A nil annotation map and an empty one are the same map.
\<close>

record DataVolumeSourcePVC =
  pvcNamespace :: string
  pvcName :: string

record DataVolumeSource =
  sourcePVC :: "DataVolumeSourcePVC option"

record DataVolumeSourceReference =
  refKind :: string
  refNamespace :: "string option"
  refName :: string

record DataVolume =
  dvNamespace :: string
  dvName :: string
  dvAnnotations :: "string \<rightharpoonup> string"
  dvSource :: "DataVolumeSource option"
  dvSourceRef :: "DataVolumeSourceReference option"

record DataSource =
  dataSourcePVC :: "DataVolumeSourcePVC option"

record CDIConfig =
  DataVolumeTTLSeconds :: "int option"

record UserInfo =
  Username :: string
  Groups :: "string list"

datatype Operation = Create | Update | Delete | Connect

record AdmissionReview =
  reqNamespace :: string
  reqName :: string
  reqOperation :: Operation
  reqUserInfo :: UserInfo
  reqObject :: "error + DataVolume"
  reqOldObject :: "error + DataVolume"

record StatusCause =
  causeType :: string
  causeMessage :: string
  causeField :: string

datatype AdmissionResponse =
    toAdmissionResponseError error
  | toRejectedAdmissionResponse "StatusCause list"
  | allowedAdmissionResponse
  | toPatchResponse DataVolume DataVolume

datatype TokenOperation = OperationClone | OperationUpload

record GroupVersionResource =
  gvrGroup :: string
  gvrVersion :: string
  gvrResource :: string

record Payload =
  payloadOperation :: TokenOperation
  payloadName :: string
  payloadNamespace :: string
  payloadResource :: GroupVersionResource
  payloadParams :: "string \<rightharpoonup> string"

record dataVolumeMutatingWebhook =
  validateDataVolumeResource :: "AdmissionReview \<Rightarrow> error option"
  getDataSource :: "string \<Rightarrow> string \<Rightarrow> error + DataSource"
  getCDIConfig :: "string \<Rightarrow> error + CDIConfig"
  CanUserClonePVC :: "string \<Rightarrow> string \<Rightarrow> string \<Rightarrow> UserInfo \<Rightarrow> bool \<times> string \<times> error option"
  tokenGenerate :: "Payload \<Rightarrow> error + string"
  ConfigName :: string
  AnnDeleteAfterCompletion :: string
  AnnCloneToken :: string

definition tokenResource :: GroupVersionResource where
  "tokenResource = \<lparr>gvrGroup = '''', gvrVersion = ''v1'', gvrResource = ''persistentvolumeclaims''\<rparr>"

definition DataVolumeDataSource :: string where
  "DataVolumeDataSource = ''DataSource''"

definition CauseTypeFieldValueInvalid :: string where
  "CauseTypeFieldValueInvalid = ''FieldValueInvalid''"

text \<open>Lines 78 to 90 of \<^verbatim>\<open>Admit\<close>: the PVC the DataVolume clones, if any.\<close>

definition pvcSourceOf ::
  "dataVolumeMutatingWebhook \<Rightarrow> DataVolume \<Rightarrow> error + DataVolumeSourcePVC option" where
  "pvcSourceOf wh dataVolume =
     (if dvSource dataVolume \<noteq> None then Inr (sourcePVC (the (dvSource dataVolume)))
      else if dvSourceRef dataVolume \<noteq> None \<and>
              refKind (the (dvSourceRef dataVolume)) = DataVolumeDataSource
      then (let ns = (if refNamespace (the (dvSourceRef dataVolume)) \<noteq> None \<and>
                         the (refNamespace (the (dvSourceRef dataVolume))) \<noteq> ''''
                      then the (refNamespace (the (dvSourceRef dataVolume)))
                      else dvNamespace dataVolume)
            in case getDataSource wh ns (refName (the (dvSourceRef dataVolume))) of
                 Inl err \<Rightarrow> Inl err
               | Inr dataSource \<Rightarrow> Inr (dataSourcePVC dataSource))
      else Inr None)"

text \<open>Lines 92 to 99: the target namespace and name.\<close>

definition targetOf :: "AdmissionReview \<Rightarrow> DataVolume \<Rightarrow> string \<times> string" where
  "targetOf ar dataVolume =
     (if dvNamespace dataVolume = '''' then reqNamespace ar else dvNamespace dataVolume,
      if dvName dataVolume = '''' then reqName ar else dvName dataVolume)"

text \<open>Lines 125 to 128: the source namespace and name.\<close>

definition sourceOf :: "DataVolumeSourcePVC \<Rightarrow> string \<Rightarrow> string \<times> string" where
  "sourceOf pvcSource targetNamespace =
     (if pvcNamespace pvcSource = '''' then targetNamespace else pvcNamespace pvcSource,
      pvcName pvcSource)"

definition tokenData :: "string \<Rightarrow> string \<Rightarrow> string \<Rightarrow> string \<Rightarrow> Payload" where
  "tokenData sourceName sourceNamespace targetNamespace targetName =
     \<lparr>payloadOperation = OperationClone, payloadName = sourceName,
      payloadNamespace = sourceNamespace, payloadResource = tokenResource,
      payloadParams = [''targetNamespace'' \<mapsto> targetNamespace, ''targetName'' \<mapsto> targetName]\<rparr>"

definition Admit :: "dataVolumeMutatingWebhook \<Rightarrow> AdmissionReview \<Rightarrow> AdmissionResponse" where
  "Admit wh ar =
     (case validateDataVolumeResource wh ar of
        Some err \<Rightarrow> toAdmissionResponseError err
      | None \<Rightarrow>
     (case reqObject ar of
        Inl err \<Rightarrow> toAdmissionResponseError err
      | Inr dataVolume \<Rightarrow>
     (case pvcSourceOf wh dataVolume of
        Inl err \<Rightarrow> toAdmissionResponseError err
      | Inr pvcSource \<Rightarrow>
     (case targetOf ar dataVolume of
        (targetNamespace, targetName) \<Rightarrow>
     (case getCDIConfig wh (ConfigName wh) of
        Inl err \<Rightarrow> toAdmissionResponseError err
      | Inr config \<Rightarrow>
     (case (if DataVolumeTTLSeconds config \<noteq> None \<and>
               lookup0 (dvAnnotations dataVolume) (AnnDeleteAfterCompletion wh) \<noteq> ''false''
            then (dataVolume\<lparr>dvAnnotations :=
                               (dvAnnotations dataVolume)(AnnDeleteAfterCompletion wh \<mapsto> ''true'')\<rparr>,
                  True)
            else (dataVolume, False)) of
        (modifiedDataVolume, modified) \<Rightarrow>
          if pvcSource = None
          then (if modified then toPatchResponse dataVolume modifiedDataVolume
                else allowedAdmissionResponse)
          else
     (case sourceOf (the pvcSource) targetNamespace of
        (sourceNamespace, sourceName) \<Rightarrow>
     (case (if reqOperation ar = Update
            then (case reqOldObject ar of
                    Inl err \<Rightarrow> Some (toAdmissionResponseError err)
                  | Inr oldDataVolume \<Rightarrow>
                      if dvAnnotations oldDataVolume (AnnCloneToken wh) \<noteq> None
                      then Some allowedAdmissionResponse else None)
            else None) of
        Some response \<Rightarrow> response
      | None \<Rightarrow>
     (case CanUserClonePVC wh sourceNamespace sourceName targetNamespace (reqUserInfo ar) of
        (ok, reason, err) \<Rightarrow>
          if err \<noteq> None then toAdmissionResponseError (the err)
          else if \<not> ok
          then toRejectedAdmissionResponse
                 [\<lparr>causeType = CauseTypeFieldValueInvalid, causeMessage = reason,
                   causeField = ''spec.source.PVC.namespace''\<rparr>]
          else
     (case tokenGenerate wh (tokenData sourceName sourceNamespace targetNamespace targetName) of
        Inl err \<Rightarrow> toAdmissionResponseError err
      | Inr token \<Rightarrow>
          toPatchResponse dataVolume
            (modifiedDataVolume\<lparr>dvAnnotations :=
               (dvAnnotations modifiedDataVolume)(AnnCloneToken wh \<mapsto> token)\<rparr>)))))))))))"

subsection \<open>Concrete inputs for the webhook\<close>

definition user_alice :: UserInfo where
  "user_alice = \<lparr>Username = ''alice'', Groups = []\<rparr>"

definition dv_clone :: DataVolume where
  "dv_clone = \<lparr>dvNamespace = ''target-ns'', dvName = ''clone-dv'', dvAnnotations = Map.empty,
     dvSource = Some \<lparr>sourcePVC = Some \<lparr>pvcNamespace = ''source-ns'', pvcName = ''golden''\<rparr>\<rparr>,
     dvSourceRef = None\<rparr>"

definition dv_clone_with_token :: DataVolume where
  "dv_clone_with_token = dv_clone\<lparr>dvAnnotations := [''cdi.kubevirt.io/storage.clone.token'' \<mapsto> ''signed'']\<rparr>"

definition dv_import :: DataVolume where
  "dv_import = \<lparr>dvNamespace = ''target-ns'', dvName = ''import-dv'', dvAnnotations = Map.empty,
     dvSource = Some \<lparr>sourcePVC = None\<rparr>, dvSourceRef = None\<rparr>"

definition ar_create_clone :: AdmissionReview where
  "ar_create_clone = \<lparr>reqNamespace = ''target-ns'', reqName = ''clone-dv'', reqOperation = Create,
     reqUserInfo = user_alice, reqObject = Inr dv_clone, reqOldObject = Inl (Errorf ''unexpected end of JSON input'')\<rparr>"

definition ar_update_clone :: AdmissionReview where
  "ar_update_clone = \<lparr>reqNamespace = ''target-ns'', reqName = ''clone-dv'', reqOperation = Update,
     reqUserInfo = user_alice, reqObject = Inr dv_clone_with_token, reqOldObject = Inr dv_clone_with_token\<rparr>"

definition ar_update_import :: AdmissionReview where
  "ar_update_import = \<lparr>reqNamespace = ''target-ns'', reqName = ''import-dv'', reqOperation = Update,
     reqUserInfo = user_alice, reqObject = Inr dv_import, reqOldObject = Inr dv_import\<rparr>"

definition noError :: "AdmissionReview \<Rightarrow> error option" where
  "noError ar = None"

definition noDataSource :: "string \<Rightarrow> string \<Rightarrow> error + DataSource" where
  "noDataSource ns name = Inl NotFound"

definition configWithTTL :: "string \<Rightarrow> error + CDIConfig" where
  "configWithTTL name = Inr \<lparr>DataVolumeTTLSeconds = Some 0\<rparr>"

definition sarAllows :: "string \<Rightarrow> string \<Rightarrow> string \<Rightarrow> UserInfo \<Rightarrow> bool \<times> string \<times> error option" where
  "sarAllows sourceNamespace sourceName targetNamespace user = (True, '''', None)"

definition sarDenies :: "string \<Rightarrow> string \<Rightarrow> string \<Rightarrow> UserInfo \<Rightarrow> bool \<times> string \<times> error option" where
  "sarDenies sourceNamespace sourceName targetNamespace user =
     (False, ''User alice has insufficient permissions in clone source namespace source-ns'', None)"

definition signToken :: "Payload \<Rightarrow> error + string" where
  "signToken payload = Inr (''token-for-'' @ payloadName payload)"

definition wh_allowing :: dataVolumeMutatingWebhook where
  "wh_allowing = \<lparr>validateDataVolumeResource = noError, getDataSource = noDataSource,
     getCDIConfig = configWithTTL, CanUserClonePVC = sarAllows, tokenGenerate = signToken,
     ConfigName = ''config'', AnnDeleteAfterCompletion = ''cdi.kubevirt.io/storage.deleteAfterCompletion'',
     AnnCloneToken = ''cdi.kubevirt.io/storage.clone.token''\<rparr>"

definition wh_denying :: dataVolumeMutatingWebhook where
  "wh_denying = wh_allowing\<lparr>CanUserClonePVC := sarDenies\<rparr>"

section \<open>Properties of the capability lookup\<close>

lemma keys_fold_update:
  "fst ` set (fold (\<lambda>c m. AList.update c v m) xs m0) = set xs \<union> fst ` set m0"
  by (induction xs arbitrary: m0) (auto simp: dom_update)

lemma distinct_fold_update:
  "distinct (map fst m0) \<Longrightarrow> distinct (map fst (fold (\<lambda>c m. AList.update c v m) xs m0))"
  by (induction xs arbitrary: m0) (auto simp: distinct_update)

lemma set_range_order: "set (range_order rank m) = set m"
  by (simp add: range_order_def)

lemma distinct_keys_range_order:
  "distinct (map fst m) \<Longrightarrow> distinct (map fst (range_order rank m))"
  by (simp add: range_order_def distinct_map)

lemma set_uniqueCapabilities: "set (uniqueCapabilities rank input) = set input"
  by (simp add: uniqueCapabilities_def Let_def set_range_order keys_fold_update)

lemma distinct_uniqueCapabilities: "distinct (uniqueCapabilities rank input)"
  by (simp add: uniqueCapabilities_def Let_def distinct_keys_range_order distinct_fold_update)

lemma key_no_provisioner:
  "Provisioner sc = ''kubernetes.io/no-provisioner'' \<Longrightarrow>
   storageProvisionerKey sc = ''kubernetes.io/no-provisioner''"
  by (simp add: storageProvisionerKey_def storageClassToProvisionerKeyMapper_def)

lemma loop_capabilities:
  "concat (map (\<lambda>pv. if pvStorageClassName pv = name then pvCapabilities pv else []) items) =
   capabilitiesOfClass items name"
  by (induction items) (simp_all add: capabilitiesOfClass_def)

lemma Get_unfold_no_provisioner:
  "Provisioner sc = ''kubernetes.io/no-provisioner'' \<Longrightarrow>
   Get rank listPVs sc = capabilitiesForNoProvisioner rank listPVs sc"
  by (simp add: Get_def key_no_provisioner)

text \<open>
  Claim C1, as the code has it. For a class whose provisioner is
  \<^verbatim>\<open>kubernetes.io/no-provisioner\<close>, \<open>Get\<close> returns a list without duplicates, and reports
  found exactly when that list is not empty. The list is empty when the class does not carry
  the label \<^verbatim>\<open>local.storage.openshift.io/owner-name\<close> or when listing the volumes fails;
  otherwise its elements are the pairs of an access mode and the resolved volume mode of each
  listed volume whose StorageClassName is the name of the class, whatever the volume's phase.
\<close>

theorem Get_no_provisioner:
  assumes prov: "Provisioner sc = ''kubernetes.io/no-provisioner''"
    and res: "Get rank listPVs sc = (capabilities, found)"
  shows "distinct capabilities \<and> found = (capabilities \<noteq> []) \<and>
         set capabilities =
           (if Labels sc ''local.storage.openshift.io/owner-name'' = None then {}
            else case listPVs of
                   Inl err \<Rightarrow> {}
                 | Inr items \<Rightarrow> set (capabilitiesOfClass items (Name sc)))"
proof -
  have eq: "capabilitiesForNoProvisioner rank listPVs sc = (capabilities, found)"
    using res by (simp add: Get_unfold_no_provisioner [OF prov])
  show ?thesis
  proof (cases "Labels sc ''local.storage.openshift.io/owner-name'' = None")
    case True
    then show ?thesis using eq
      by (auto simp: capabilitiesForNoProvisioner_def knownNoProvisioner_def isLocalStorageOperator_def)
  next
    case False
    show ?thesis
    proof (cases listPVs)
      case (Inl err)
      then show ?thesis using eq False
        by (auto simp: capabilitiesForNoProvisioner_def knownNoProvisioner_def isLocalStorageOperator_def)
    next
      case (Inr items)
      then have "capabilities = uniqueCapabilities rank (capabilitiesOfClass items (Name sc))"
        and "found = (capabilities \<noteq> [])"
        using eq False
        by (auto simp: capabilitiesForNoProvisioner_def knownNoProvisioner_def
            isLocalStorageOperator_def loop_capabilities Let_def)
      with False Inr show ?thesis
        by (auto simp: set_uniqueCapabilities distinct_uniqueCapabilities)
    qed
  qed
qed

lemma Get_sc_local:
  "Get byInsertion (Inr [pv_local_available, pv_local_bound]) sc_local =
     ([\<lparr>AccessMode = ReadWriteOnce, VolumeMode = PersistentVolumeBlock\<rparr>,
       \<lparr>AccessMode = ReadWriteMany, VolumeMode = PersistentVolumeBlock\<rparr>], True)"
  by (simp add: Get_unfold_no_provisioner sc_local_def capabilitiesForNoProvisioner_def
      knownNoProvisioner_def isLocalStorageOperator_def pv_local_available_def pv_local_bound_def
      pvCapabilities_def ResolveVolumeMode_def uniqueCapabilities_def range_order_def byInsertion_def)

theorem Get_no_provisioner_witness:
  "Provisioner sc_local = ''kubernetes.io/no-provisioner'' \<and>
   Get byInsertion (Inr [pv_local_available, pv_local_bound]) sc_local =
     ([\<lparr>AccessMode = ReadWriteOnce, VolumeMode = PersistentVolumeBlock\<rparr>,
       \<lparr>AccessMode = ReadWriteMany, VolumeMode = PersistentVolumeBlock\<rparr>], True) \<and>
   set [\<lparr>AccessMode = ReadWriteOnce, VolumeMode = PersistentVolumeBlock\<rparr>,
        \<lparr>AccessMode = ReadWriteMany, VolumeMode = PersistentVolumeBlock\<rparr>] =
     set (capabilitiesOfClass [pv_local_available, pv_local_bound] (Name sc_local))"
proof -
  have p: "Provisioner sc_local = ''kubernetes.io/no-provisioner''"
    by (simp add: sc_local_def)
  have l: "Labels sc_local ''local.storage.openshift.io/owner-name'' \<noteq> None"
    by (simp add: sc_local_def)
  show ?thesis
    using Get_no_provisioner [OF p Get_sc_local] p l Get_sc_local by simp
qed

text \<open>
  The claim as the specification words it fails twice. A no-provisioner class without the
  owner label gets no capabilities although a Bound volume of the class exists; and for a
  labelled class the capabilities of a volume that is only Available are returned, although
  no volume of the class is Bound.
\<close>

theorem Get_no_provisioner_counterexample:
  "Get byInsertion (Inr [pv_manual_bound]) sc_manual = ([], False) \<and>
   boundCapabilitiesOfClass [pv_manual_bound] (Name sc_manual) =
     [\<lparr>AccessMode = ReadWriteOnce, VolumeMode = PersistentVolumeFilesystem\<rparr>] \<and>
   Get byInsertion (Inr [pv_local_available]) sc_local =
     ([\<lparr>AccessMode = ReadWriteOnce, VolumeMode = PersistentVolumeBlock\<rparr>], True) \<and>
   boundCapabilitiesOfClass [pv_local_available] (Name sc_local) = []"
proof -
  have "Get byInsertion (Inr [pv_manual_bound]) sc_manual = ([], False)"
    by (simp add: Get_unfold_no_provisioner sc_manual_def capabilitiesForNoProvisioner_def
      knownNoProvisioner_def isLocalStorageOperator_def)
  moreover have "boundCapabilitiesOfClass [pv_manual_bound] (Name sc_manual) =
     [\<lparr>AccessMode = ReadWriteOnce, VolumeMode = PersistentVolumeFilesystem\<rparr>]"
    by (simp add: boundCapabilitiesOfClass_def pv_manual_bound_def sc_manual_def pvCapabilities_def
        ResolveVolumeMode_def)
  moreover have "Get byInsertion (Inr [pv_local_available]) sc_local =
     ([\<lparr>AccessMode = ReadWriteOnce, VolumeMode = PersistentVolumeBlock\<rparr>], True)"
    by (simp add: Get_unfold_no_provisioner sc_local_def capabilitiesForNoProvisioner_def
      knownNoProvisioner_def isLocalStorageOperator_def pv_local_available_def
      pvCapabilities_def ResolveVolumeMode_def uniqueCapabilities_def range_order_def byInsertion_def)
  moreover have "boundCapabilitiesOfClass [pv_local_available] (Name sc_local) = []"
    by (simp add: boundCapabilitiesOfClass_def pv_local_available_def sc_local_def)
  ultimately show ?thesis by simp
qed

lemma key_portworx_volume:
  "Provisioner sc = ''kubernetes.io/portworx-volume'' \<Longrightarrow>
   storageProvisionerKey sc =
     (if Parameters sc ''shared'' = Some ''true'' then ''kubernetes.io/portworx-volume/shared''
      else ''kubernetes.io/portworx-volume'')"
  by (simp add: storageProvisionerKey_def storageClassToProvisionerKeyMapper_def lookup0_def
      split: option.split)

lemma key_pxd:
  "Provisioner sc = ''pxd.openstorage.org'' \<Longrightarrow>
   storageProvisionerKey sc =
     (if Parameters sc ''shared'' = Some ''true'' then ''pxd.openstorage.org/shared''
      else ''pxd.openstorage.org'')"
  by (simp add: storageProvisionerKey_def storageClassToProvisionerKeyMapper_def lookup0_def
      split: option.split)

lemma table_portworx:
  "CapabilitiesByProvisionerKey ''kubernetes.io/portworx-volume/shared'' =
     Some [\<lparr>AccessMode = ReadWriteMany, VolumeMode = PersistentVolumeFilesystem\<rparr>]"
  "CapabilitiesByProvisionerKey ''pxd.openstorage.org/shared'' =
     Some [\<lparr>AccessMode = ReadWriteMany, VolumeMode = PersistentVolumeFilesystem\<rparr>]"
  "CapabilitiesByProvisionerKey ''kubernetes.io/portworx-volume'' =
     Some [\<lparr>AccessMode = ReadWriteOnce, VolumeMode = PersistentVolumeFilesystem\<rparr>]"
  "CapabilitiesByProvisionerKey ''pxd.openstorage.org'' =
     Some [\<lparr>AccessMode = ReadWriteOnce, VolumeMode = PersistentVolumeFilesystem\<rparr>]"
  by (simp_all add: CapabilitiesByProvisionerKey_def)

text \<open>
  Claim C8. For a class whose provisioner is \<^verbatim>\<open>kubernetes.io/portworx-volume\<close> or
  \<^verbatim>\<open>pxd.openstorage.org\<close>, \<open>Get\<close> first maps the class to its provisioner key and returns
  the shared capability list (ReadWriteMany, Filesystem) when the parameter \<^verbatim>\<open>shared\<close> is
  \<^verbatim>\<open>true\<close>, and the list (ReadWriteOnce, Filesystem) otherwise; both are found in the table.
\<close>

theorem Get_portworx_shared:
  assumes "Provisioner sc = ''kubernetes.io/portworx-volume'' \<or> Provisioner sc = ''pxd.openstorage.org''"
  shows "Get rank listPVs sc =
     (if Parameters sc ''shared'' = Some ''true''
      then ([\<lparr>AccessMode = ReadWriteMany, VolumeMode = PersistentVolumeFilesystem\<rparr>], True)
      else ([\<lparr>AccessMode = ReadWriteOnce, VolumeMode = PersistentVolumeFilesystem\<rparr>], True))"
proof -
  from assms show ?thesis
  proof
    assume p: "Provisioner sc = ''kubernetes.io/portworx-volume''"
    show ?thesis
      unfolding Get_def Let_def key_portworx_volume [OF p]
      by (simp add: table_portworx)
  next
    assume p: "Provisioner sc = ''pxd.openstorage.org''"
    show ?thesis
      unfolding Get_def Let_def key_pxd [OF p]
      by (simp add: table_portworx)
  qed
qed

theorem Get_portworx_shared_witness:
  "(Provisioner sc_portworx_shared = ''kubernetes.io/portworx-volume'' \<or>
    Provisioner sc_portworx_shared = ''pxd.openstorage.org'') \<and>
   Get byInsertion (Inl NotFound) sc_portworx_shared =
     ([\<lparr>AccessMode = ReadWriteMany, VolumeMode = PersistentVolumeFilesystem\<rparr>], True)"
proof -
  have p: "Provisioner sc_portworx_shared = ''kubernetes.io/portworx-volume'' \<or>
    Provisioner sc_portworx_shared = ''pxd.openstorage.org''"
    by (simp add: sc_portworx_shared_def)
  have "Parameters sc_portworx_shared ''shared'' = Some ''true''"
    by (simp add: sc_portworx_shared_def)
  with Get_portworx_shared [OF p, of byInsertion "Inl NotFound"] p show ?thesis
    by simp
qed

section \<open>Properties of the StorageProfile reconciler\<close>

lemma find_None_iff_all: "(find P xs = None) = (\<forall>x \<in> set xs. \<not> P x)"
  by (induction xs) auto

lemma find_found_iff: "(case find P xs of Some x \<Rightarrow> True | None \<Rightarrow> False) = (\<exists>x \<in> set xs. P x)"
  by (induction xs) auto

lemma isIncomplete_iff: "isIncomplete sets = lacksAccessModeOrVolumeMode sets"
  unfolding isIncomplete_def lacksAccessModeOrVolumeMode_def find_found_iff
  by auto

lemma fold_count:
  "fold (\<lambda>x n. if P x then n + 1 else n) xs (k::nat) = k + length (filter P xs)"
  by (induction xs arbitrary: k) auto

lemma checkIncompleteProfiles_ok:
  assumes "checkIncompleteProfiles s = (None, s')"
  shows "storageProfiles s' = storageProfiles s \<and>
         IncompleteProfileGauge s' =
           length (filter (\<lambda>p. isIncomplete (statusClaimPropertySets (Status p))) (storageProfiles s))"
  using assms
  by (auto simp: checkIncompleteProfiles_def clientListStorageProfiles_def fold_count
      split: sum.splits option.splits)

lemma deleteStorageProfile_ok:
  assumes "deleteStorageProfile name s = (None, s')"
  shows "IncompleteProfileGauge s' =
           length (filter (\<lambda>p. isIncomplete (statusClaimPropertySets (Status p))) (storageProfiles s'))"
proof -
  obtain err s1 where d: "clientDelete name s = (err, s1)"
    by (cases "clientDelete name s")
  with assms have "checkIncompleteProfiles s1 = (None, s')"
    by (auto simp: deleteStorageProfile_def split: option.splits)
  then show ?thesis
    using checkIncompleteProfiles_ok by fastforce
qed

text \<open>
  Claim C2. When a reconcile pass returns without error, the gauge holds the number of
  StorageProfiles of the cluster (as stored when the pass ends) whose status property sets
  lack an access mode or a volume mode: an empty list of sets, or a set with no access modes
  or with a nil volume mode.
\<close>

theorem Reconcile_sets_gauge:
  assumes "Reconcile r name s = (None, s')"
  shows "IncompleteProfileGauge s' =
           length (filter (\<lambda>p. lacksAccessModeOrVolumeMode (statusClaimPropertySets (Status p)))
                          (storageProfiles s'))"
proof -
  have "IncompleteProfileGauge s' =
           length (filter (\<lambda>p. isIncomplete (statusClaimPropertySets (Status p))) (storageProfiles s'))"
  proof (cases "clientGetStorageClass name s")
    case (Inl err)
    with assms have "deleteStorageProfile name s = (None, s')"
      by (auto simp: Reconcile_def split: if_splits)
    then show ?thesis by (rule deleteStorageProfile_ok)
  next
    case (Inr storageClass)
    show ?thesis
    proof (cases "DeletionTimestamp storageClass \<noteq> None")
      case True
      with Inr assms have "deleteStorageProfile name s = (None, s')"
        by (auto simp: Reconcile_def)
      then show ?thesis by (rule deleteStorageProfile_ok)
    next
      case False
      obtain e s1 where rs: "reconcileStorageProfile r storageClass s = (e, s1)"
        by (cases "reconcileStorageProfile r storageClass s")
      with Inr False assms have "checkIncompleteProfiles s1 = (None, s')"
        by (auto simp: Reconcile_def split: option.splits)
      then show ?thesis
        using checkIncompleteProfiles_ok by fastforce
    qed
  qed
  then show ?thesis by (simp add: isIncomplete_iff)
qed

text \<open>
  Claim C5. When the StorageProfile the reconciler gets for the class has, in its spec, a
  property set with a volume mode and no access modes, \<open>reconcileStorageProfile\<close> returns an
  error and leaves the cluster as it was: no profile is created or updated, and no write
  request is issued.
\<close>

theorem reconcileStorageProfile_rejects:
  assumes got: "clientGetStorageProfile (Name sc) s = Inr p"
    and cps: "cps \<in> set (specClaimPropertySets (Spec p))"
    and vm: "cpsVolumeMode cps \<noteq> None"
    and am: "AccessModes cps = []"
  shows "\<exists>err. reconcileStorageProfile r sc s = (Some err, s)"
proof -
  let ?bad = "\<lambda>cps. length (AccessModes cps) = 0 \<and> cpsVolumeMode cps \<noteq> None"
  have g: "getStorageProfile r sc s = Inr (p, Some p)"
    using got by (simp add: getStorageProfile_def)
  have "find ?bad (specClaimPropertySets (Spec p)) \<noteq> None"
    using cps vm am find_None_iff_all [of ?bad "specClaimPropertySets (Spec p)"] by auto
  then obtain c where f: "find ?bad (specClaimPropertySets (Spec p)) = Some c"
    by auto
  have ne: "specClaimPropertySets (Spec p) \<noteq> []"
    using cps by auto
  show ?thesis
    using g f ne by (simp add: reconcileStorageProfile_def Let_def)
qed

lemma find_append_new: "\<forall>q \<in> set xs. \<not> P q \<Longrightarrow> P x \<Longrightarrow> find P (xs @ [x]) = Some x"
  by (induction xs) auto

lemma find_replace: "find P xs = Some y \<Longrightarrow> P x \<Longrightarrow> find P (map (\<lambda>q. if P q then x else q) xs) = Some x"
  by (induction xs) (auto split: if_splits)

lemma updateStorageProfile_stored:
  assumes up: "updateStorageProfile prev sp s = (None, s')"
    and prev: "prev = None \<or> (\<exists>p0. prev = Some p0 \<and> profileName p0 = profileName sp \<and>
                 find (\<lambda>q. profileName q = profileName sp) (storageProfiles s) = Some p0)"
  shows "find (\<lambda>q. profileName q = profileName sp) (storageProfiles s') = Some sp"
proof (cases prev)
  case None
  with up have c: "clientCreate sp s = (None, s')"
    by (simp add: updateStorageProfile_def)
  then have "\<forall>q \<in> set (storageProfiles s). \<not> profileName q = profileName sp"
    and "storageProfiles s' = storageProfiles s @ [sp]"
    by (auto simp: clientCreate_def called_def split: option.splits if_splits)
  then show ?thesis
    using find_append_new [of "storageProfiles s" "\<lambda>q. profileName q = profileName sp" sp] by simp
next
  case (Some p0)
  with prev have f: "find (\<lambda>q. profileName q = profileName sp) (storageProfiles s) = Some p0"
    by auto
  show ?thesis
  proof (cases "p0 = sp")
    case True
    with up Some have "s' = s" by (simp add: updateStorageProfile_def)
    with f True show ?thesis by simp
  next
    case False
    with up Some have u: "clientUpdate sp s = (None, s')"
      by (simp add: updateStorageProfile_def)
    then have "storageProfiles s' =
        map (\<lambda>q. if profileName q = profileName sp then sp else q) (storageProfiles s)"
      by (auto simp: clientUpdate_def called_def split: option.splits if_splits)
    then show ?thesis
      using find_replace [OF f, of sp] by simp
  qed
qed

lemma SetRecommendedLabels_fields:
  "profileName (SetRecommendedLabels c obj l n) = profileName obj"
  "Spec (SetRecommendedLabels c obj l n) = Spec obj"
  "Status (SetRecommendedLabels c obj l n) = Status obj"
  by (simp_all add: SetRecommendedLabels_def Let_def)

lemma getStorageProfile_name:
  assumes "getStorageProfile r sc s = Inr (p, prev)"
  shows "profileName p = Name sc \<and>
         (prev = None \<or> (prev = Some p \<and>
            find (\<lambda>q. profileName q = Name sc) (storageProfiles s) = Some p))"
proof (cases "clientGetStorageProfile (Name sc) s")
  case (Inl err)
  with assms show ?thesis
    by (auto simp: getStorageProfile_def createEmptyStorageProfile_def Let_def
        SetRecommendedLabels_fields MakeEmptyStorageProfileSpec_def
        split: if_splits sum.splits)
next
  case (Inr p0)
  then have "find (\<lambda>q. profileName q = Name sc) (storageProfiles s) = Some p0"
    by (auto simp: clientGetStorageProfile_def split: option.splits)
  with Inr assms show ?thesis
    using find_Some_in_set [of "\<lambda>q. profileName q = Name sc" "storageProfiles s" p0]
    by (auto simp: getStorageProfile_def)
qed

lemma reconcileStorageProfile_stored:
  assumes "reconcileStorageProfile r sc s = (None, s')"
  shows "\<exists>p. find (\<lambda>q. profileName q = Name sc) (storageProfiles s') = Some p \<and>
             statusCloneStrategy (Status p) = reconcileCloneStrategy sc (specCloneStrategy (Spec p))"
proof -
  obtain p prev where g: "getStorageProfile r sc s = Inr (p, prev)"
    using assms by (auto simp: reconcileStorageProfile_def split: sum.splits)
  note n = getStorageProfile_name [OF g]
  define p1 where "p1 = p\<lparr>Status := (Status p)
                 \<lparr>statusStorageClass := Some (Name sc),
                  statusProvisioner := Some (Provisioner sc),
                  statusCloneStrategy := reconcileCloneStrategy sc (specCloneStrategy (Spec p))\<rparr>\<rparr>"
  obtain sets where up: "updateStorageProfile prev
      (SetRecommendedLabels (commonConsts r) (p1\<lparr>Status := (Status p1)\<lparr>statusClaimPropertySets := sets\<rparr>\<rparr>)
         (installerLabels r) ''cdi-controller'') s = (None, s')"
    using assms g unfolding reconcileStorageProfile_def Let_def p1_def
    by (auto split: sum.splits if_splits option.splits)
  define sp where "sp = SetRecommendedLabels (commonConsts r)
      (p1\<lparr>Status := (Status p1)\<lparr>statusClaimPropertySets := sets\<rparr>\<rparr>) (installerLabels r) ''cdi-controller''"
  have nm: "profileName sp = Name sc"
    using n by (simp add: sp_def p1_def SetRecommendedLabels_fields)
  have st: "statusCloneStrategy (Status sp) = reconcileCloneStrategy sc (specCloneStrategy (Spec sp))"
    by (simp add: sp_def p1_def SetRecommendedLabels_fields)
  have "find (\<lambda>q. profileName q = profileName sp) (storageProfiles s') = Some sp"
  proof (rule updateStorageProfile_stored)
    show "updateStorageProfile prev sp s = (None, s')"
      using up by (simp add: sp_def)
    show "prev = None \<or> (\<exists>p0. prev = Some p0 \<and> profileName p0 = profileName sp \<and>
                 find (\<lambda>q. profileName q = profileName sp) (storageProfiles s) = Some p0)"
      using n nm by auto
  qed
  with nm st show ?thesis by auto
qed

lemma Get_sc_manual: "Get rank listPVs sc_manual = ([], False)"
  by (simp add: Get_unfold_no_provisioner sc_manual_def capabilitiesForNoProvisioner_def
      knownNoProvisioner_def isLocalStorageOperator_def)

lemma sc_manual_fields:
  "Name sc_manual = ''manual''" "Provisioner sc_manual = ''kubernetes.io/no-provisioner''"
  "DeletionTimestamp sc_manual = None" "Annotations sc_manual = Map.empty"
  by (simp_all add: sc_manual_def)

lemma reconcilePropertySets_manual: "reconcilePropertySets r sc_manual s = []"
  by (simp add: reconcilePropertySets_def Get_sc_manual)

lemmas reconcile_manual_defs =
  reconcileStorageProfile_def getStorageProfile_def clientGetStorageProfile_def
  cluster_empty_def noFailure_def IsNotFound_def createEmptyStorageProfile_def reconciler0_def
  MakeEmptyStorageProfileSpec_def SetRecommendedLabels_def Let_def reconcilePropertySets_manual
  updateStorageProfile_def clientCreate_def called_def sc_manual_fields

lemma reconcile_manual_fst:
  "fst (reconcileStorageProfile reconciler0 sc_manual cluster_empty) = None"
  by (simp add: reconcile_manual_defs)

lemma reconcile_manual_failing:
  "failing (snd (reconcileStorageProfile reconciler0 sc_manual cluster_empty)) = noFailure"
  by (simp add: reconcile_manual_defs)

lemma Reconcile_manual_fst: "fst (Reconcile reconciler0 ''manual'' cluster_empty) = None"
proof -
  obtain s1 where r: "reconcileStorageProfile reconciler0 sc_manual cluster_empty = (None, s1)"
    using reconcile_manual_fst by (cases "reconcileStorageProfile reconciler0 sc_manual cluster_empty") auto
  have f: "failing s1 = noFailure"
    using reconcile_manual_failing r by simp
  have g: "clientGetStorageClass ''manual'' cluster_empty = Inr sc_manual"
    by (simp add: clientGetStorageClass_def cluster_empty_def noFailure_def sc_manual_def)
  have d: "DeletionTimestamp sc_manual = None"
    by (simp add: sc_manual_def)
  show ?thesis
    by (simp add: Reconcile_def g d r checkIncompleteProfiles_def clientListStorageProfiles_def f
        noFailure_def Let_def)
qed

lemma reconcile_manual_sets:
  "map (\<lambda>p. statusClaimPropertySets (Status p))
       (storageProfiles (snd (reconcileStorageProfile reconciler0 sc_manual cluster_empty))) = [[]]"
  by (simp add: reconcile_manual_defs)

lemma Reconcile_manual_gauge:
  "IncompleteProfileGauge (snd (Reconcile reconciler0 ''manual'' cluster_empty)) = 1"
proof -
  obtain s1 where r: "reconcileStorageProfile reconciler0 sc_manual cluster_empty = (None, s1)"
    using reconcile_manual_fst by (cases "reconcileStorageProfile reconciler0 sc_manual cluster_empty") auto
  have f: "failing s1 = noFailure"
    using reconcile_manual_failing r by simp
  have m: "map (\<lambda>p. statusClaimPropertySets (Status p)) (storageProfiles s1) = [[]]"
    using reconcile_manual_sets r by simp
  then obtain p where p: "storageProfiles s1 = [p]" "statusClaimPropertySets (Status p) = []"
    by auto
  have g: "clientGetStorageClass ''manual'' cluster_empty = Inr sc_manual"
    by (simp add: clientGetStorageClass_def cluster_empty_def noFailure_def sc_manual_def)
  show ?thesis
    by (simp add: Reconcile_def g sc_manual_fields r checkIncompleteProfiles_def
        clientListStorageProfiles_def f noFailure_def Let_def p isIncomplete_def)
qed

theorem Reconcile_sets_gauge_witness:
  "fst (Reconcile reconciler0 ''manual'' cluster_empty) = None \<and>
   IncompleteProfileGauge (snd (Reconcile reconciler0 ''manual'' cluster_empty)) = 1 \<and>
   IncompleteProfileGauge (snd (Reconcile reconciler0 ''manual'' cluster_empty)) =
     length (filter (\<lambda>p. lacksAccessModeOrVolumeMode (statusClaimPropertySets (Status p)))
               (storageProfiles (snd (Reconcile reconciler0 ''manual'' cluster_empty))))"
proof -
  have e: "Reconcile reconciler0 ''manual'' cluster_empty =
             (None, snd (Reconcile reconciler0 ''manual'' cluster_empty))"
    using Reconcile_manual_fst by (simp add: prod_eq_iff)
  show ?thesis
    using Reconcile_sets_gauge [OF e] Reconcile_manual_fst Reconcile_manual_gauge by simp
qed

theorem reconcileStorageProfile_rejects_witness:
  "clientGetStorageProfile (Name sc_manual) cluster_bad = Inr profile_bad \<and>
   \<lparr>AccessModes = [], cpsVolumeMode = Some PersistentVolumeBlock\<rparr>
     \<in> set (specClaimPropertySets (Spec profile_bad)) \<and>
   (\<exists>err. reconcileStorageProfile reconciler0 sc_manual cluster_bad = (Some err, cluster_bad))"
proof -
  have g: "clientGetStorageProfile (Name sc_manual) cluster_bad = Inr profile_bad"
    by (simp add: clientGetStorageProfile_def cluster_bad_def noFailure_def sc_manual_def
        profile_bad_def)
  have m: "\<lparr>AccessModes = [], cpsVolumeMode = Some PersistentVolumeBlock\<rparr>
     \<in> set (specClaimPropertySets (Spec profile_bad))"
    by (simp add: profile_bad_def)
  show ?thesis
    using reconcileStorageProfile_rejects [OF g m, of reconciler0] g m by simp
qed

lemma sc_snapshot_fields:
  "Name sc_snapshot = ''fast''" "Provisioner sc_snapshot = ''rbd.csi.ceph.com''"
  "DeletionTimestamp sc_snapshot = None"
  "Annotations sc_snapshot = [''cdi.kubevirt.io/clone-strategy'' \<mapsto> ''snapshot'']"
  by (simp_all add: sc_snapshot_def)

lemma Get_sc_snapshot: "Get rank listPVs sc_snapshot = (createRbdCapabilities, True)"
  by (simp add: Get_def storageProvisionerKey_def storageClassToProvisionerKeyMapper_def
      sc_snapshot_fields CapabilitiesByProvisionerKey_def)

lemma reconcile_snapshot_fst:
  "fst (reconcileStorageProfile reconciler0 sc_snapshot cluster_empty) = None"
  by (simp add: reconcileStorageProfile_def getStorageProfile_def clientGetStorageProfile_def
  cluster_empty_def noFailure_def IsNotFound_def createEmptyStorageProfile_def reconciler0_def
  MakeEmptyStorageProfileSpec_def SetRecommendedLabels_def Let_def reconcilePropertySets_def
  Get_sc_snapshot updateStorageProfile_def clientCreate_def called_def sc_snapshot_fields)

text \<open>
  Claim C10. A clone strategy of the spec is returned unchanged. Without one, the strategy
  comes from the annotation \<^verbatim>\<open>cdi.kubevirt.io/clone-strategy\<close> of the class: copy gives
  HostAssisted, snapshot gives Snapshot, csi-clone gives CsiClone, anything else gives nil.
  After a successful \<open>reconcileStorageProfile\<close> the stored profile of the class carries that
  value as its status clone strategy.
\<close>

theorem reconcileCloneStrategy_seed:
  "reconcileCloneStrategy sc (Some strategy) = Some strategy \<and>
   reconcileCloneStrategy sc None =
     (if lookup0 (Annotations sc) ''cdi.kubevirt.io/clone-strategy'' = ''copy''
      then Some CloneStrategyHostAssisted
      else if lookup0 (Annotations sc) ''cdi.kubevirt.io/clone-strategy'' = ''snapshot''
      then Some CloneStrategySnapshot
      else if lookup0 (Annotations sc) ''cdi.kubevirt.io/clone-strategy'' = ''csi-clone''
      then Some CloneStrategyCsiClone
      else None) \<and>
   (reconcileStorageProfile r sc s = (None, s') \<longrightarrow>
      (\<exists>p. find (\<lambda>q. profileName q = Name sc) (storageProfiles s') = Some p \<and>
           statusCloneStrategy (Status p) = reconcileCloneStrategy sc (specCloneStrategy (Spec p))))"
  using reconcileStorageProfile_stored [of r sc s s']
  by (simp add: reconcileCloneStrategy_def)

theorem reconcileCloneStrategy_seed_witness:
  "reconcileCloneStrategy sc_snapshot (Some CloneStrategyCsiClone) = Some CloneStrategyCsiClone \<and>
   reconcileCloneStrategy sc_snapshot None = Some CloneStrategySnapshot \<and>
   fst (reconcileStorageProfile reconciler0 sc_snapshot cluster_empty) = None \<and>
   (\<exists>p. find (\<lambda>q. profileName q = Name sc_snapshot)
            (storageProfiles (snd (reconcileStorageProfile reconciler0 sc_snapshot cluster_empty))) = Some p \<and>
        specCloneStrategy (Spec p) = None \<and>
        statusCloneStrategy (Status p) = Some CloneStrategySnapshot)"
proof -
  let ?s' = "snd (reconcileStorageProfile reconciler0 sc_snapshot cluster_empty)"
  have e: "reconcileStorageProfile reconciler0 sc_snapshot cluster_empty = (None, ?s')"
    using reconcile_snapshot_fst by (simp add: prod_eq_iff)
  have a: "lookup0 (Annotations sc_snapshot) ''cdi.kubevirt.io/clone-strategy'' = ''snapshot''"
    by (simp add: lookup0_def sc_snapshot_fields)
  have sp: "\<forall>p \<in> set (storageProfiles ?s'). specCloneStrategy (Spec p) = None"
    by (simp add: reconcileStorageProfile_def getStorageProfile_def clientGetStorageProfile_def
  cluster_empty_def noFailure_def IsNotFound_def createEmptyStorageProfile_def reconciler0_def
  MakeEmptyStorageProfileSpec_def SetRecommendedLabels_def Let_def reconcilePropertySets_def
  Get_sc_snapshot updateStorageProfile_def clientCreate_def called_def sc_snapshot_fields)
  from reconcileCloneStrategy_seed [of sc_snapshot CloneStrategyCsiClone reconciler0 cluster_empty ?s']
  have fn: "reconcileCloneStrategy sc_snapshot (Some CloneStrategyCsiClone) = Some CloneStrategyCsiClone"
    and fs: "reconcileCloneStrategy sc_snapshot None = Some CloneStrategySnapshot"
    and ex: "\<exists>p. find (\<lambda>q. profileName q = Name sc_snapshot) (storageProfiles ?s') = Some p \<and>
           statusCloneStrategy (Status p) = reconcileCloneStrategy sc_snapshot (specCloneStrategy (Spec p))"
    using e a by simp_all
  from ex obtain p where p: "find (\<lambda>q. profileName q = Name sc_snapshot) (storageProfiles ?s') = Some p"
    "statusCloneStrategy (Status p) = reconcileCloneStrategy sc_snapshot (specCloneStrategy (Spec p))"
    by blast
  from p(1) have "p \<in> set (storageProfiles ?s')"
    using find_Some_in_set by fastforce
  with sp have "specCloneStrategy (Spec p) = None" by blast
  with p fs have "find (\<lambda>q. profileName q = Name sc_snapshot) (storageProfiles ?s') = Some p \<and>
        specCloneStrategy (Spec p) = None \<and> statusCloneStrategy (Status p) = Some CloneStrategySnapshot"
    by simp
  then have "\<exists>p. find (\<lambda>q. profileName q = Name sc_snapshot) (storageProfiles ?s') = Some p \<and>
        specCloneStrategy (Spec p) = None \<and> statusCloneStrategy (Status p) = Some CloneStrategySnapshot"
    by blast
  with fn fs reconcile_snapshot_fst show ?thesis by simp
qed

section \<open>Properties of the format readers\<close>

declare constructLoop.simps [simp del]

lemma matchHeader_removes_key:
  assumes keys: "\<forall>(k, h) \<in> set knownHdrs. Format h = k"
    and m: "matchHeader env Match rank knownHdrs fr w = Inr ((Some h, err), knownHdrs1, fr1, w1)"
  shows "Match h (buf fr1) \<and> (Format h, h) \<in> set knownHdrs \<and>
         knownHdrs1 = AList.delete (Format h) knownHdrs \<and>
         Format h \<notin> fst ` set knownHdrs1 \<and> set knownHdrs1 \<subseteq> set knownHdrs"
proof -
  from matchHeader_SomeD [OF m] obtain format where
    f: "find (\<lambda>(format, kh). Match kh (buf fr1)) (range_order (rank knownHdrs) knownHdrs) = Some (format, h)"
    and k: "knownHdrs1 = AList.delete format knownHdrs"
    by blast
  from find_Some_in_set [OF f] have mt: "Match h (buf fr1)" and i: "(format, h) \<in> set knownHdrs"
    by (simp_all add: range_order_def)
  from i keys have fmt: "Format h = format" by auto
  have "format \<notin> fst ` set (AList.delete format knownHdrs)"
    by (rule delete_notin_dom)
  moreover have "set (AList.delete format knownHdrs) \<subseteq> set knownHdrs"
    by (auto simp: AList.delete_eq)
  ultimately show ?thesis
    using mt i k fmt by simp
qed

lemma constructLoop_found:
  assumes "\<forall>(k, h) \<in> set knownHdrs. Format h = k"
    and "constructLoop env Match rank knownHdrs fr w found = Inr (err, fr', w', found')"
  shows "\<exists>new. found' = found @ new \<and> distinct new \<and> set new \<subseteq> fst ` set knownHdrs"
  using assms
proof (induction env Match rank knownHdrs fr w found rule: constructLoop.induct)
  case (1 env Match rank knownHdrs fr w found)
  note eq = "1.prems"(2) [unfolded constructLoop.simps [of env Match rank knownHdrs fr w found]]
  show ?case
  proof (cases "matchHeader env Match rank knownHdrs fr w")
    case (Inl p)
    with eq show ?thesis by simp
  next
    case (Inr b)
    obtain hdr e knownHdrs1 fr1 w1 where b: "b = ((hdr, e), knownHdrs1, fr1, w1)"
      by (cases b) auto
    show ?thesis
    proof (cases "e = None \<and> hdr \<noteq> None")
      case False
      with eq Inr b have "found' = found"
        by (auto split: option.splits)
      then show ?thesis by simp
    next
      case True
      then obtain h where h: "hdr = Some h" and e: "e = None" by auto
      note rm = matchHeader_removes_key [OF "1.prems"(1) Inr [unfolded b h]]
      show ?thesis
      proof (cases "fileFormatSelector env h fr1 w1")
        case (Inl p)
        with eq Inr b h e show ?thesis by simp
      next
        case sel: (Inr c)
        obtain fr2 w2 where c: "c = (fr2, w2)" by (cases c)
        show ?thesis
        proof (cases "Format h = ''qcow2''")
          case True
          with eq Inr b h e sel c have "found' = found @ [Format h]" by simp
          moreover have "Format h \<in> fst ` set knownHdrs"
            using rm by force
          ultimately show ?thesis by simp
        next
          case False
          with eq Inr b h e sel c have r:
            "constructLoop env Match rank knownHdrs1 fr2 w2 (found @ [Format h]) =
               Inr (err, fr', w', found')"
            by simp
          have k1: "\<forall>(k, h) \<in> set knownHdrs1. Format h = k"
            using rm "1.prems"(1) by blast
          have "\<exists>new. found' = (found @ [Format h]) @ new \<and> distinct new \<and>
                  set new \<subseteq> fst ` set knownHdrs1"
            by (rule "1.IH" [of b "(hdr, e)" "(knownHdrs1, fr1, w1)" hdr e knownHdrs1 "(fr1, w1)"
                  fr1 w1 h c fr2 w2])
               (simp_all add: Inr b h e sel c False k1 r)
          then obtain new where n: "found' = (found @ [Format h]) @ new" "distinct new"
            "set new \<subseteq> fst ` set knownHdrs1"
            by blast
          have "Format h \<notin> set new" using n(3) rm by blast
          moreover have "Format h \<in> fst ` set knownHdrs" using rm by force
          moreover have "set new \<subseteq> fst ` set knownHdrs" using n(3) rm by blast
          ultimately have "found' = found @ (Format h # new) \<and> distinct (Format h # new) \<and>
              set (Format h # new) \<subseteq> fst ` set knownHdrs"
            using n by simp
          then show ?thesis by blast
        qed
      qed
    qed
  qed
qed

text \<open>
  Claim C6. The keys of the known-headers map are the formats of its headers. When
  \<open>matchHeader\<close> returns a header, that header matches the buffer, its key was in the map and
  is gone from the map it hands back. So the formats that one run of \<open>constructReaders\<close>
  finds are pairwise different, and each is a key of the copy the run started with.
\<close>

theorem header_formats_matched_once:
  assumes keys: "\<forall>(k, h) \<in> set CopyKnownHdrs. Format h = k"
  shows "(matchHeader env Match rank CopyKnownHdrs frm wm = Inr ((Some h, e), knownHdrs1, fr1, w1) \<longrightarrow>
            Match h (buf fr1) \<and> (Format h, h) \<in> set CopyKnownHdrs \<and>
            knownHdrs1 = AList.delete (Format h) CopyKnownHdrs \<and>
            Format h \<notin> fst ` set knownHdrs1) \<and>
         (constructReaders env Match rank CopyKnownHdrs r fr w = Inr (err, fr', w', found) \<longrightarrow>
            distinct found \<and> set found \<subseteq> fst ` set CopyKnownHdrs)"
proof (intro conjI impI)
  assume m: "matchHeader env Match rank CopyKnownHdrs frm wm = Inr ((Some h, e), knownHdrs1, fr1, w1)"
  note rm = matchHeader_removes_key [OF keys m]
  from rm show "Match h (buf fr1)" by (rule conjunct1)
  from rm show "(Format h, h) \<in> set CopyKnownHdrs" by simp
  from rm show "knownHdrs1 = AList.delete (Format h) CopyKnownHdrs" by simp
  from rm show "Format h \<notin> fst ` set knownHdrs1" by blast
next
  assume c: "constructReaders env Match rank CopyKnownHdrs r fr w = Inr (err, fr', w', found)"
  have "\<exists>new. found = [] @ new \<and> distinct new \<and> set new \<subseteq> fst ` set CopyKnownHdrs"
  proof (cases "appendReader env (rdrTypM ''stream'') r fr w")
    case (Inl p)
    with c show ?thesis by (simp add: constructReaders_def)
  next
    case (Inr a)
    obtain fr0 w0 where a: "a = (fr0, w0)" by (cases a)
    from c Inr a have "constructLoop env Match rank CopyKnownHdrs fr0 w0 [] = Inr (err, fr', w', found)"
      by (simp add: constructReaders_def)
    from constructLoop_found [OF keys this] show ?thesis .
  qed
  then have d: "distinct found \<and> set found \<subseteq> fst ` set CopyKnownHdrs" by simp
  from d show "distinct found" by (rule conjunct1)
  from d show "set found \<subseteq> fst ` set CopyKnownHdrs" by (rule conjunct2)
qed

lemmas importer_defs =
  matchHeader_def read_def TopReader_def appendReader_def io0_def Match0_def knownHdrs0_def
  rank0_def frEmpty_def fileFormatSelector_def gzReader_def xzReader_def qcow2NopReader_def
  rdrTypM_def rdrGz_def rdrMulti_def rdrXz_def rdrStream_def handle_def isCloser_def
  range_order_def Let_def

lemma constructReaders_io0:
  "constructReaders io0 Match0 rank0 knownHdrs0 (Some (Closer 0)) frEmpty ''GZGZab'' =
     Inr (None, frDone, ''GZab'', [''gz''])"
  by (simp add: constructReaders_def constructLoop.simps importer_defs frDone_def)

lemma matchHeader_io0:
  "matchHeader io0 Match0 rank0 knownHdrs0 frS ''GZGZab'' =
     Inr ((Some hdr_gz, None), [(''qcow2'', hdr_qcow2)], frM, ''GZGZab'')"
  by (simp add: importer_defs frS_def frM_def hdr_gz_def hdr_qcow2_def)

theorem header_formats_matched_once_witness:
  "matchHeader io0 Match0 rank0 knownHdrs0 frS ''GZGZab'' =
     Inr ((Some hdr_gz, None), [(''qcow2'', hdr_qcow2)], frM, ''GZGZab'') \<and>
   Match0 hdr_gz (buf frM) \<and>
   [(''qcow2'', hdr_qcow2)] = AList.delete (Format hdr_gz) knownHdrs0 \<and>
   Format hdr_gz \<notin> fst ` set [(''qcow2'', hdr_qcow2)] \<and>
   constructReaders io0 Match0 rank0 knownHdrs0 (Some (Closer 0)) frEmpty ''GZGZab'' =
     Inr (None, frDone, ''GZab'', [''gz'']) \<and>
   distinct [''gz''] \<and> set [''gz''] \<subseteq> fst ` set knownHdrs0"
proof -
  have keys: "\<forall>(k, h) \<in> set knownHdrs0. Format h = k"
    by (simp add: knownHdrs0_def)
  from header_formats_matched_once [OF keys, of io0 Match0 rank0 frS "''GZGZab''" hdr_gz None
      "[(''qcow2'', hdr_qcow2)]" frM "''GZGZab''" "Some (Closer 0)" frEmpty "''GZGZab''" None frDone
      "''GZab''" "[''gz'']"]
    matchHeader_io0 constructReaders_io0
  show ?thesis by (simp add: delete_notin_dom)
qed

lemma last_filter_Some:
  assumes "filter (\<lambda>e. e \<noteq> None) es \<noteq> []"
  shows "\<exists>y. last (filter (\<lambda>e. e \<noteq> None) es) = Some y"
proof -
  have "last (filter (\<lambda>e. e \<noteq> None) es) \<in> set (filter (\<lambda>e. e \<noteq> None) es)"
    using assms by (rule last_in_set)
  then show ?thesis by auto
qed

lemma lastError_Cons:
  "lastError (e # es) = (case lastError es of None \<Rightarrow> e | Some x \<Rightarrow> Some x)"
proof (cases "filter (\<lambda>e. e \<noteq> None) es")
  case Nil
  then show ?thesis by (cases e) (simp_all add: lastError_def)
next
  case (Cons a as)
  then have ne: "filter (\<lambda>e. e \<noteq> None) es \<noteq> []" by simp
  from last_filter_Some [OF ne] obtain y where y: "last (filter (\<lambda>e. e \<noteq> None) es) = Some y"
    by blast
  have l: "lastError es = last (filter (\<lambda>e. e \<noteq> None) es)"
    using Cons by (simp add: lastError_def)
  have "lastError (e # es) = last (filter (\<lambda>e. e \<noteq> None) es)"
    using Cons by (cases e) (simp_all add: lastError_def)
  with l y show ?thesis by simp
qed

lemma closeFrom_walk:
  "n \<le> length rs \<Longrightarrow>
   closeFrom env rs n rtnerr w =
     (case lastError (fst (closeWalk env (rev (take n rs)) w)) of
        None \<Rightarrow> rtnerr | Some x \<Rightarrow> Some x,
      snd (closeWalk env (rev (take n rs)) w))"
proof (induction n arbitrary: rtnerr w)
  case 0
  then show ?case by (simp add: lastError_def)
next
  case (Suc i)
  then have i: "i < length rs" by simp
  then have t: "rev (take (Suc i) rs) = rs ! i # rev (take i rs)"
    by (simp add: take_Suc_conv_app_nth)
  obtain err w1 where c: "closeReader env (rs ! i) w = (err, w1)"
    by (cases "closeReader env (rs ! i) w")
  obtain errs w2 where cw: "closeWalk env (rev (take i rs)) w1 = (errs, w2)"
    by (cases "closeWalk env (rev (take i rs)) w1")
  from Suc.IH [of "if err \<noteq> None then err else rtnerr" w1] i
  show ?case
    by (auto simp: t c cw lastError_Cons split: option.splits)
qed

lemma length_closeWalk: "length (fst (closeWalk env rds w)) = length rds"
proof (induction rds arbitrary: w)
  case Nil
  then show ?case by simp
next
  case (Cons rd rds)
  obtain err w1 where c: "closeReader env rd w = (err, w1)"
    by (cases "closeReader env rd w")
  obtain errs w2 where cw: "closeWalk env rds w1 = (errs, w2)"
    by (cases "closeWalk env rds w1")
  from Cons [of w1] show ?case by (simp add: c cw)
qed

text \<open>
  Claim C7. \<open>Close\<close> closes the readers of the stack one after the other from the last
  appended to the first, every one of them whatever the earlier results, and returns the
  last error that walk met, or nil when there was none.
\<close>

theorem Close_reverse_walk:
  "Close env fr w =
     (lastError (fst (closeWalk env (rev (readers fr)) w)),
      snd (closeWalk env (rev (readers fr)) w)) \<and>
   length (fst (closeWalk env (rev (readers fr)) w)) = length (readers fr)"
  by (simp add: Close_def closeFrom_walk length_closeWalk split: option.splits)

lemma Close_ioC: "Close ioC frDone [] = (Some (ApiError ''stream''), [3, 0])"
  by (simp add: Close_def frDone_def closeReader_def ioC_def numeral_eq_Suc)

theorem Close_reverse_walk_witness:
  "Close ioC frDone [] = (Some (ApiError ''stream''), [3, 0]) \<and>
   fst (closeWalk ioC (rev (readers frDone)) []) = [None, Some (ApiError ''gzip''), None, Some (ApiError ''stream'')]"
proof -
  have "fst (closeWalk ioC (rev (readers frDone)) []) =
      [None, Some (ApiError ''gzip''), None, Some (ApiError ''stream'')]"
    by (simp add: frDone_def closeReader_def ioC_def)
  with Close_reverse_walk [of ioC frDone "[]"] Close_ioC show ?thesis by simp
qed

section \<open>Properties of the termination message\<close>

lemma newline_notin_ReplaceAll: "newline \<notin> set (ReplaceAll s newline (CHR '' ''))"
  by (auto simp: ReplaceAll_def newline_def)

lemma set_dropCR: "set (dropCR data) \<subseteq> set data"
  by (auto simp: dropCR_def dest: in_set_takeD)

lemma scanFirstLine_subset: "scanFirstLine input = Some line \<Longrightarrow> set line \<subseteq> set input"
proof -
  assume "scanFirstLine input = Some line"
  then have "line = dropCR (takeWhile (\<lambda>c. c \<noteq> newline) input)"
    by (auto simp: scanFirstLine_def Let_def split: if_splits)
  then have "set line \<subseteq> set (takeWhile (\<lambda>c. c \<noteq> newline) input)"
    using set_dropCR by simp
  then show ?thesis
    using set_takeWhileD by fastforce
qed

text \<open>
  Claim C9. Whatever the message, what \<open>WriteTerminationMessageToFile\<close> hands to
  \<^verbatim>\<open>ioutil.WriteFile\<close> goes to the given file and contains no newline: it is the message with
  every newline replaced by a space, less one trailing carriage return.
\<close>

theorem termination_message_single_line:
  assumes "WriteTerminationMessageToFile WriteFile file message = (Some (f, content), err)"
  shows "f = file \<and> newline \<notin> set content \<and>
         content = dropCR (ReplaceAll message newline (CHR '' ''))"
proof -
  let ?m = "ReplaceAll message newline (CHR '' '')"
  from assms have s: "scanFirstLine ?m = Some content" and f: "f = file"
    by (auto simp: WriteTerminationMessageToFile_def Let_def split: option.splits)
  from scanFirstLine_subset [OF s] newline_notin_ReplaceAll [of message]
  have n: "newline \<notin> set content" by auto
  have "\<forall>c \<in> set ?m. c \<noteq> newline"
    using newline_notin_ReplaceAll [of message] by blast
  then have tw: "takeWhile (\<lambda>c. c \<noteq> newline) ?m = ?m"
    by (simp add: takeWhile_eq_all_conv)
  from s have "content = dropCR (takeWhile (\<lambda>c. c \<noteq> newline) ?m)"
    by (auto simp: scanFirstLine_def Let_def split: if_splits)
  then have "content = dropCR ?m"
    by (simp only: tw)
  with f n show ?thesis by simp
qed

theorem termination_message_single_line_witness:
  "WriteTerminationMessageToFile writeOk ''/dev/termination-log''
     (''no space'' @ [newline] @ ''left'' @ [carriageReturn]) =
     (Some (''/dev/termination-log'', ''no space left''), None) \<and>
   newline \<notin> set ''no space left''"
proof -
  have e: "WriteTerminationMessageToFile writeOk ''/dev/termination-log''
     (''no space'' @ [newline] @ ''left'' @ [carriageReturn]) =
     (Some (''/dev/termination-log'', ''no space left''), None)"
    by (simp add: WriteTerminationMessageToFile_def ReplaceAll_def scanFirstLine_def Let_def
        newline_def carriageReturn_def dropCR_def MaxScanTokenSize_def writeOk_def)
  from termination_message_single_line [OF e] have "newline \<notin> set ''no space left''"
    by (rule conjunct2 [THEN conjunct1])
  with e show ?thesis by (rule conjI)
qed

section \<open>Properties of the mutating webhook\<close>

lemma Admit_patch_clone:
  assumes obj: "reqObject ar = Inr dataVolume"
    and src: "pvcSourceOf wh dataVolume = Inr (Some pvcSource)"
    and tgt: "targetOf ar dataVolume = (targetNamespace, targetName)"
    and sou: "sourceOf pvcSource targetNamespace = (sourceNamespace, sourceName)"
    and res: "Admit wh ar = toPatchResponse original modified"
  shows "fst (CanUserClonePVC wh sourceNamespace sourceName targetNamespace (reqUserInfo ar)) \<and>
         original = dataVolume \<and>
         (\<exists>token. tokenGenerate wh (tokenData sourceName sourceNamespace targetNamespace targetName) = Inr token \<and>
                  dvAnnotations modified (AnnCloneToken wh) = Some token)"
proof -
  obtain ok reason err where can:
    "CanUserClonePVC wh sourceNamespace sourceName targetNamespace (reqUserInfo ar) = (ok, reason, err)"
    by (cases "CanUserClonePVC wh sourceNamespace sourceName targetNamespace (reqUserInfo ar)")
  from res show ?thesis
    by (simp add: Admit_def obj src tgt sou can split: option.splits sum.splits if_splits prod.splits)
       auto
qed

lemma Admit_denied:
  assumes val: "validateDataVolumeResource wh ar = None"
    and obj: "reqObject ar = Inr dataVolume"
    and src: "pvcSourceOf wh dataVolume = Inr (Some pvcSource)"
    and tgt: "targetOf ar dataVolume = (targetNamespace, targetName)"
    and sou: "sourceOf pvcSource targetNamespace = (sourceNamespace, sourceName)"
    and cfg: "getCDIConfig wh (ConfigName wh) = Inr config"
    and upd: "reqOperation ar \<noteq> Update \<or>
              (\<exists>old. reqOldObject ar = Inr old \<and> dvAnnotations old (AnnCloneToken wh) = None)"
    and can: "CanUserClonePVC wh sourceNamespace sourceName targetNamespace (reqUserInfo ar) =
                (False, reason, None)"
  shows "Admit wh ar = toRejectedAdmissionResponse
           [\<lparr>causeType = CauseTypeFieldValueInvalid, causeMessage = reason,
             causeField = ''spec.source.PVC.namespace''\<rparr>]"
  using upd
  by (auto simp: Admit_def val obj src tgt sou cfg can split: option.splits sum.splits prod.splits)

text \<open>
  Claim C4. Take a DataVolume that clones a PVC. If \<open>Admit\<close> answers with a patch, the
  SubjectAccessReview check on the source PVC has authorized the user, the patch is made
  from the submitted object and the patched object carries a generated token in the clone
  token annotation. If the check is reached and denies, \<open>Admit\<close> answers with a rejection
  whose one cause names the field \<^verbatim>\<open>spec.source.PVC.namespace\<close> and carries the reason of the
  check; a rejection holds no patch. The check is reached when the resource is valid, the
  CDIConfig is read, and the request is not an update of an object that has a token already.
\<close>

theorem Admit_token_requires_authorization:
  assumes obj: "reqObject ar = Inr dataVolume"
    and src: "pvcSourceOf wh dataVolume = Inr (Some pvcSource)"
    and tgt: "targetOf ar dataVolume = (targetNamespace, targetName)"
    and sou: "sourceOf pvcSource targetNamespace = (sourceNamespace, sourceName)"
  shows "(Admit wh ar = toPatchResponse original modified \<longrightarrow>
            fst (CanUserClonePVC wh sourceNamespace sourceName targetNamespace (reqUserInfo ar)) \<and>
            original = dataVolume \<and>
            (\<exists>token. tokenGenerate wh (tokenData sourceName sourceNamespace targetNamespace targetName) =
                       Inr token \<and>
                     dvAnnotations modified (AnnCloneToken wh) = Some token)) \<and>
         (validateDataVolumeResource wh ar = None \<and>
          getCDIConfig wh (ConfigName wh) = Inr config \<and>
          (reqOperation ar \<noteq> Update \<or>
           (\<exists>old. reqOldObject ar = Inr old \<and> dvAnnotations old (AnnCloneToken wh) = None)) \<and>
          CanUserClonePVC wh sourceNamespace sourceName targetNamespace (reqUserInfo ar) =
            (False, reason, None) \<longrightarrow>
            Admit wh ar = toRejectedAdmissionResponse
              [\<lparr>causeType = CauseTypeFieldValueInvalid, causeMessage = reason,
                causeField = ''spec.source.PVC.namespace''\<rparr>])"
proof (intro conjI impI)
  assume res: "Admit wh ar = toPatchResponse original modified"
  note p = Admit_patch_clone [OF obj src tgt sou res]
  from p show "fst (CanUserClonePVC wh sourceNamespace sourceName targetNamespace (reqUserInfo ar))"
    by (rule conjunct1)
  from p show "original = dataVolume" by simp
  from p show "\<exists>token. tokenGenerate wh (tokenData sourceName sourceNamespace targetNamespace targetName) =
                       Inr token \<and> dvAnnotations modified (AnnCloneToken wh) = Some token"
    by simp
next
  assume a: "validateDataVolumeResource wh ar = None \<and>
          getCDIConfig wh (ConfigName wh) = Inr config \<and>
          (reqOperation ar \<noteq> Update \<or>
           (\<exists>old. reqOldObject ar = Inr old \<and> dvAnnotations old (AnnCloneToken wh) = None)) \<and>
          CanUserClonePVC wh sourceNamespace sourceName targetNamespace (reqUserInfo ar) =
            (False, reason, None)"
  then have val: "validateDataVolumeResource wh ar = None"
    and cfg: "getCDIConfig wh (ConfigName wh) = Inr config"
    and upd: "reqOperation ar \<noteq> Update \<or>
           (\<exists>old. reqOldObject ar = Inr old \<and> dvAnnotations old (AnnCloneToken wh) = None)"
    and can: "CanUserClonePVC wh sourceNamespace sourceName targetNamespace (reqUserInfo ar) =
            (False, reason, None)"
    by simp_all
  show "Admit wh ar = toRejectedAdmissionResponse
              [\<lparr>causeType = CauseTypeFieldValueInvalid, causeMessage = reason,
                causeField = ''spec.source.PVC.namespace''\<rparr>]"
    by (rule Admit_denied [OF val obj src tgt sou cfg upd can])
qed

lemma clone_inputs:
  "reqObject ar_create_clone = Inr dv_clone"
  "pvcSourceOf wh dv_clone = Inr (Some \<lparr>pvcNamespace = ''source-ns'', pvcName = ''golden''\<rparr>)"
  "targetOf ar_create_clone dv_clone = (''target-ns'', ''clone-dv'')"
  "sourceOf \<lparr>pvcNamespace = ''source-ns'', pvcName = ''golden''\<rparr> ''target-ns'' = (''source-ns'', ''golden'')"
  by (simp_all add: ar_create_clone_def pvcSourceOf_def dv_clone_def targetOf_def sourceOf_def)

lemma Admit_allowing:
  "Admit wh_allowing ar_create_clone =
     toPatchResponse dv_clone
       (dv_clone\<lparr>dvAnnotations :=
          [''cdi.kubevirt.io/storage.deleteAfterCompletion'' \<mapsto> ''true'',
           ''cdi.kubevirt.io/storage.clone.token'' \<mapsto> ''token-for-golden'']\<rparr>)"
  by (simp add: Admit_def wh_allowing_def noError_def configWithTTL_def sarAllows_def signToken_def
        tokenData_def lookup0_def dv_clone_def ar_create_clone_def pvcSourceOf_def targetOf_def
        sourceOf_def)

lemma Admit_denying:
  "Admit wh_denying ar_create_clone =
     toRejectedAdmissionResponse
       [\<lparr>causeType = CauseTypeFieldValueInvalid,
         causeMessage = ''User alice has insufficient permissions in clone source namespace source-ns'',
         causeField = ''spec.source.PVC.namespace''\<rparr>]"
  by (simp add: Admit_def wh_denying_def wh_allowing_def noError_def configWithTTL_def sarDenies_def
        lookup0_def dv_clone_def ar_create_clone_def pvcSourceOf_def targetOf_def sourceOf_def
        CauseTypeFieldValueInvalid_def)

theorem Admit_token_requires_authorization_witness:
  "Admit wh_allowing ar_create_clone =
     toPatchResponse dv_clone
       (dv_clone\<lparr>dvAnnotations :=
          [''cdi.kubevirt.io/storage.deleteAfterCompletion'' \<mapsto> ''true'',
           ''cdi.kubevirt.io/storage.clone.token'' \<mapsto> ''token-for-golden'']\<rparr>) \<and>
   fst (CanUserClonePVC wh_allowing ''source-ns'' ''golden'' ''target-ns'' (reqUserInfo ar_create_clone)) \<and>
   CanUserClonePVC wh_denying ''source-ns'' ''golden'' ''target-ns'' (reqUserInfo ar_create_clone) =
     (False, ''User alice has insufficient permissions in clone source namespace source-ns'', None) \<and>
   Admit wh_denying ar_create_clone =
     toRejectedAdmissionResponse
       [\<lparr>causeType = CauseTypeFieldValueInvalid,
         causeMessage = ''User alice has insufficient permissions in clone source namespace source-ns'',
         causeField = ''spec.source.PVC.namespace''\<rparr>]"
proof -
  have d: "validateDataVolumeResource wh_denying ar_create_clone = None"
    "getCDIConfig wh_denying (ConfigName wh_denying) = Inr \<lparr>DataVolumeTTLSeconds = Some 0\<rparr>"
    "reqOperation ar_create_clone \<noteq> Update"
    "CanUserClonePVC wh_denying ''source-ns'' ''golden'' ''target-ns'' (reqUserInfo ar_create_clone) =
       (False, ''User alice has insufficient permissions in clone source namespace source-ns'', None)"
    by (simp_all add: wh_denying_def wh_allowing_def noError_def configWithTTL_def sarDenies_def
        ar_create_clone_def)
  from Admit_token_requires_authorization [OF clone_inputs(1) clone_inputs(2) clone_inputs(3) clone_inputs(4),
      of wh_allowing "dv_clone"
      "dv_clone\<lparr>dvAnnotations :=
          [''cdi.kubevirt.io/storage.deleteAfterCompletion'' \<mapsto> ''true'',
           ''cdi.kubevirt.io/storage.clone.token'' \<mapsto> ''token-for-golden'']\<rparr>"]
    Admit_allowing
  have a: "fst (CanUserClonePVC wh_allowing ''source-ns'' ''golden'' ''target-ns''
             (reqUserInfo ar_create_clone))"
    by simp
  from Admit_token_requires_authorization [OF clone_inputs(1) clone_inputs(2) clone_inputs(3) clone_inputs(4),
      of wh_denying undefined undefined "\<lparr>DataVolumeTTLSeconds = Some 0\<rparr>"
      "''User alice has insufficient permissions in clone source namespace source-ns''"] d
  have r: "Admit wh_denying ar_create_clone =
     toRejectedAdmissionResponse
       [\<lparr>causeType = CauseTypeFieldValueInvalid,
         causeMessage = ''User alice has insufficient permissions in clone source namespace source-ns'',
         causeField = ''spec.source.PVC.namespace''\<rparr>]"
    by simp
  from Admit_allowing a d(4) r show ?thesis by simp
qed

text \<open>
  The annotation \<^verbatim>\<open>deleteAfterCompletion\<close> over all paths of \<open>Admit\<close>. A response that
  allows the DataVolume without a patch is given only when the CDIConfig sets no TTL, when
  the annotation is \<^verbatim>\<open>false\<close>, or on the early return for an update of a clone whose old
  object has a clone token. In every patch response the patched object has the annotation
  \<^verbatim>\<open>true\<close> when the TTL is set and the submitted value is not \<^verbatim>\<open>false\<close>, and the submitted
  value otherwise.
\<close>

lemma Admit_allowed_without_patch:
  assumes obj: "reqObject ar = Inr dataVolume"
    and cfg: "getCDIConfig wh (ConfigName wh) = Inr config"
    and src: "pvcSourceOf wh dataVolume = Inr pvcSource"
    and res: "Admit wh ar = allowedAdmissionResponse"
  shows "DataVolumeTTLSeconds config = None \<or>
         lookup0 (dvAnnotations dataVolume) (AnnDeleteAfterCompletion wh) = ''false'' \<or>
         (pvcSource \<noteq> None \<and> reqOperation ar = Update \<and>
          (\<exists>old. reqOldObject ar = Inr old \<and> dvAnnotations old (AnnCloneToken wh) \<noteq> None))"
proof -
  obtain tn tname where tgt: "targetOf ar dataVolume = (tn, tname)"
    by (cases "targetOf ar dataVolume")
  obtain sn sname where sou: "sourceOf (the pvcSource) tn = (sn, sname)"
    by (cases "sourceOf (the pvcSource) tn")
  obtain ok reason err where can: "CanUserClonePVC wh sn sname tn (reqUserInfo ar) = (ok, reason, err)"
    by (cases "CanUserClonePVC wh sn sname tn (reqUserInfo ar)")
  from res show ?thesis
    by (simp add: Admit_def obj cfg src tgt sou can split: option.splits sum.splits if_splits)
qed

lemma Admit_patch_annotation:
  assumes obj: "reqObject ar = Inr dataVolume"
    and cfg: "getCDIConfig wh (ConfigName wh) = Inr config"
    and ne: "AnnCloneToken wh \<noteq> AnnDeleteAfterCompletion wh"
    and res: "Admit wh ar = toPatchResponse original modified"
  shows "dvAnnotations modified (AnnDeleteAfterCompletion wh) =
           (if DataVolumeTTLSeconds config \<noteq> None \<and>
               lookup0 (dvAnnotations dataVolume) (AnnDeleteAfterCompletion wh) \<noteq> ''false''
            then Some ''true'' else dvAnnotations dataVolume (AnnDeleteAfterCompletion wh))"
proof -
  obtain tn tname where tgt: "targetOf ar dataVolume = (tn, tname)"
    by (cases "targetOf ar dataVolume")
  show ?thesis
  proof (cases "pvcSourceOf wh dataVolume")
    case (Inl e)
    with res show ?thesis
      by (simp add: Admit_def obj split: option.splits)
  next
    case (Inr pvcSource)
    obtain sn sname where sou: "sourceOf (the pvcSource) tn = (sn, sname)"
      by (cases "sourceOf (the pvcSource) tn")
    obtain ok reason err where can: "CanUserClonePVC wh sn sname tn (reqUserInfo ar) = (ok, reason, err)"
      by (cases "CanUserClonePVC wh sn sname tn (reqUserInfo ar)")
    from res ne show ?thesis
      by (simp add: Admit_def obj cfg Inr tgt sou can split: option.splits sum.splits if_splits)
         auto
  qed
qed

text \<open>
  Claim C3 says that every admitted DataVolume gets the annotation
  \<^verbatim>\<open>deleteAfterCompletion\<close> set to \<^verbatim>\<open>true\<close> when the CDIConfig sets a TTL, unless it carries
  the value \<^verbatim>\<open>false\<close>. The code does not do so on the early return: here the CDIConfig
  sets a TTL and the clone DataVolume of an update request has no such annotation; its old
  object has a clone token, and \<open>Admit\<close> allows the DataVolume with no patch, so the
  annotation is not added. The same update of a DataVolume that does not clone is answered
  with the patch that adds the annotation.
\<close>

theorem Admit_update_with_token_drops_annotation:
  "getCDIConfig wh_allowing (ConfigName wh_allowing) = Inr \<lparr>DataVolumeTTLSeconds = Some 0\<rparr> \<and>
   dvAnnotations dv_clone_with_token (AnnDeleteAfterCompletion wh_allowing) = None \<and>
   Admit wh_allowing ar_update_clone = allowedAdmissionResponse \<and>
   Admit wh_allowing ar_update_import =
     toPatchResponse dv_import
       (dv_import\<lparr>dvAnnotations := [''cdi.kubevirt.io/storage.deleteAfterCompletion'' \<mapsto> ''true'']\<rparr>)"
proof -
  have "getCDIConfig wh_allowing (ConfigName wh_allowing) = Inr \<lparr>DataVolumeTTLSeconds = Some 0\<rparr>"
    by (simp add: wh_allowing_def configWithTTL_def)
  moreover have "dvAnnotations dv_clone_with_token (AnnDeleteAfterCompletion wh_allowing) = None"
    by (simp add: dv_clone_with_token_def dv_clone_def wh_allowing_def)
  moreover have "Admit wh_allowing ar_update_clone = allowedAdmissionResponse"
    by (simp add: Admit_def ar_update_clone_def pvcSourceOf_def dv_clone_with_token_def dv_clone_def
        targetOf_def sourceOf_def wh_allowing_def noError_def configWithTTL_def lookup0_def)
  moreover have "Admit wh_allowing ar_update_import =
     toPatchResponse dv_import
       (dv_import\<lparr>dvAnnotations := [''cdi.kubevirt.io/storage.deleteAfterCompletion'' \<mapsto> ''true'']\<rparr>)"
    by (simp add: Admit_def ar_update_import_def pvcSourceOf_def dv_import_def
        targetOf_def wh_allowing_def noError_def configWithTTL_def lookup0_def)
  ultimately show ?thesis by simp
qed

end
